theory Spec2Isabelle
  imports Complex_Main "HOL-Library.Word" "HOL-Library.Sublist"
begin

section \<open>JavaScript values\<close>

text \<open>
  A JavaScript string is a sequence of UTF-16 code units. \<open>js\<close> embeds an ASCII
  literal of the source.
\<close>

type_synonym jsstring = "16 word list"

definition js :: "string \<Rightarrow> jsstring" where
  "js s = map of_char s"

text \<open>
  The values \<open>JSON.parse\<close> produces. A JavaScript value that may be \<open>undefined\<close>
  is a \<open>json option\<close>, \<open>None\<close> being \<open>undefined\<close>.
\<close>

datatype json =
    JNull
  | JBool bool
  | JNum rat
  | JStr jsstring
  | JArr "json list"
  | JObj "(jsstring \<times> json) list"

type_synonym jsval = "json option"

datatype js_error = TypeError | SyntaxError

text \<open>Truthiness, as tested by \<open>if (x)\<close>, \<open>!x\<close>, \<open>x && y\<close> and \<open>x || y\<close>.\<close>

fun truthy :: "jsval \<Rightarrow> bool" where
  "truthy None = False"
| "truthy (Some JNull) = False"
| "truthy (Some (JBool b)) = b"
| "truthy (Some (JNum n)) = (n \<noteq> 0)"
| "truthy (Some (JStr s)) = (s \<noteq> [])"
| "truthy (Some (JArr xs)) = True"
| "truthy (Some (JObj kvs)) = True"

text \<open>
  Property access \<open>x.k\<close>, for the property names the handlers read (\<open>type\<close>,
  \<open>transcript\<close>, \<open>item\<close>, \<open>role\<close>, \<open>content\<close>, \<open>response\<close>, \<open>id\<close>, \<open>delta\<close>,
  \<open>output\<close>, \<open>name\<close>, \<open>arguments\<close>, \<open>call_id\<close>, \<open>error\<close>, \<open>message\<close>,
  \<open>npc_name\<close>): none of them is a built-in property of a string, number, boolean or
  array, so on those the access yields \<open>undefined\<close>. On \<open>null\<close> and \<open>undefined\<close> it
  raises TypeError.
\<close>

fun get_prop :: "jsval \<Rightarrow> jsstring \<Rightarrow> js_error + jsval" where
  "get_prop None k = Inl TypeError"
| "get_prop (Some JNull) k = Inl TypeError"
| "get_prop (Some (JObj kvs)) k = Inr (map_of kvs k)"
| "get_prop (Some v) k = Inr None"

text \<open>Optional chaining \<open>x?.k\<close>: \<open>undefined\<close> on \<open>null\<close> and \<open>undefined\<close>, never raises.\<close>

fun opt_prop :: "jsval \<Rightarrow> jsstring \<Rightarrow> jsval" where
  "opt_prop (Some (JObj kvs)) k = map_of kvs k"
| "opt_prop v k = None"

text \<open>Optional element access \<open>x?.[0]\<close>.\<close>

fun opt_first :: "jsval \<Rightarrow> jsval" where
  "opt_first (Some (JArr xs)) = (case xs of [] \<Rightarrow> None | x # _ \<Rightarrow> Some x)"
| "opt_first (Some (JStr s)) = (case s of [] \<Rightarrow> None | c # _ \<Rightarrow> Some (JStr [c]))"
| "opt_first (Some (JObj kvs)) = map_of kvs (js ''0'')"
| "opt_first v = None"

text \<open>\<open>typeof x === 'string'\<close> and strict equality with a string literal.\<close>

fun is_string :: "jsval \<Rightarrow> bool" where
  "is_string (Some (JStr s)) = True"
| "is_string v = False"

fun str_eq :: "jsval \<Rightarrow> jsstring \<Rightarrow> bool" where
  "str_eq (Some (JStr s)) t = (s = t)"
| "str_eq v t = False"

text \<open>
  Strict equality \<open>a === b\<close> of two values read from parsed JSON or from a field:
  primitives compare by value, arrays and objects by identity, and two distinct
  occurrences of an array or object are never identical.
\<close>

fun strict_eq :: "json \<Rightarrow> json \<Rightarrow> bool" where
  "strict_eq JNull JNull = True"
| "strict_eq (JBool a) (JBool b) = (a = b)"
| "strict_eq (JNum a) (JNum b) = (a = b)"
| "strict_eq (JStr a) (JStr b) = (a = b)"
| "strict_eq a b = False"

subsection \<open>String methods\<close>

text \<open>
  \<open>String.prototype.trim\<close> removes WhiteSpace and LineTerminator code units from both
  ends.
\<close>

definition js_whitespace :: "16 word \<Rightarrow> bool" where
  "js_whitespace c \<longleftrightarrow>
     c \<in> {0x09, 0x0A, 0x0B, 0x0C, 0x0D, 0x20, 0xA0, 0x1680, 0x2028, 0x2029, 0x202F,
          0x205F, 0x3000, 0xFEFF} \<or> (0x2000 \<le> c \<and> c \<le> 0x200A)"

definition trim :: "jsstring \<Rightarrow> jsstring" where
  "trim s = rev (dropWhile js_whitespace (rev (dropWhile js_whitespace s)))"

text \<open>\<open>String.prototype.includes\<close>: the pattern occurs as a contiguous substring.\<close>

fun str_includes :: "jsstring \<Rightarrow> jsstring \<Rightarrow> bool" where
  "str_includes [] p = (p = [])"
| "str_includes (c # cs) p = (prefix p (c # cs) \<or> str_includes cs p)"

text \<open>
  \<open>s.replace(/X/g, '')\<close> for the two-code-unit pattern U+1F3B5 (musical note, the
  surrogate pair D83C DFB5): every occurrence is removed, scanning left to right.
\<close>

fun remove_notes :: "jsstring \<Rightarrow> jsstring" where
  "remove_notes (a # b # cs) =
     (if a = 0xD83C \<and> b = 0xDFB5 then remove_notes cs else a # remove_notes (b # cs))"
| "remove_notes cs = cs"

text \<open>
  A template literal is kept as its parts: literal text and substituted values, in
  order. The conversion of a substituted value to text is the runtime's.
\<close>

datatype tpart = Text jsstring | Subst json

type_synonym template = "tpart list"


text \<open>
  A JavaScript number as the level computation produces it: a rational, or NaN (the
  result of \<open>0 / 0\<close>). The byte sums and the divisions by the array length and by 128
  are exact in double precision, so the rationals carry no rounding.
\<close>

datatype jsnum = Num rat | NaN

fun js_div :: "jsnum \<Rightarrow> jsnum \<Rightarrow> jsnum" where
  "js_div (Num a) (Num b) = (if b = 0 then NaN else Num (a / b))"
| "js_div a b = NaN"

text \<open>\<open>Math.min(x, 1)\<close>\<close>

fun Math_min_1 :: "jsnum \<Rightarrow> jsnum" where
  "Math_min_1 (Num a) = Num (min a 1)"
| "Math_min_1 NaN = NaN"

section \<open>Data model\<close>

record VoiceSettings =
  apiKey :: jsstring
  model :: jsstring
  voice :: jsstring
  temperature :: rat

record Stats =
  strength :: rat
  dexterity :: rat
  constitution :: rat
  intelligence :: rat
  wisdom :: rat
  charisma :: rat

record Character =
  id' :: jsstring
  name :: jsstring
  class' :: jsstring
  race :: jsstring
  stats :: Stats

text \<open>The constant \<open>ROUTE_TO_NPC_FUNCTION\<close>, an object literal.\<close>

definition ROUTE_TO_NPC_FUNCTION :: json where
  \<open>ROUTE_TO_NPC_FUNCTION = JObj
     [(js ''type'', JStr (js ''function'')),
      (js ''name'', JStr (js ''route_to_npc'')),
      (js ''description'', JStr
         (js ''Route the conversation to a specific NPC when the player's action '' @
          js ''or dialogue is directed at them. Use this when an NPC should speak '' @
          js ''or respond.'')),
      (js ''parameters'', JObj
         [(js ''type'', JStr (js ''object'')),
          (js ''properties'', JObj
             [(js ''npc_name'', JObj
                 [(js ''type'', JStr (js ''string'')),
                  (js ''description'', JStr (js ''The name of the NPC who should respond'')),
                  (js ''enum'', JArr [JStr (js ''dm''), JStr (js ''elara''),
                     JStr (js ''thorek''), JStr (js ''grimjaw''), JStr (js ''valdris''),
                     JStr (js ''malachar'')])])]),
          (js ''required'', JArr [JStr (js ''npc_name'')])])]\<close>

subsection \<open>Outbound events\<close>

text \<open>The \<open>session\<close> object of a \<open>session.update\<close> event.\<close>

record session_config =
  modalities :: "jsstring list"
  instructions :: template
  session_temperature :: rat
  tools :: "json list"
  tool_choice :: jsstring
  input_audio_format :: jsstring
  output_audio_format :: jsstring
  input_audio_transcription_model :: jsstring
  turn_detection :: json

text \<open>
  The object that \<open>switchToNPCInSession\<close> passes to \<open>JSON.stringify\<close> for the
  \<open>output\<close> of its \<open>function_call_output\<close> item.
\<close>

record function_output =
  status :: jsstring
  message :: template
  npc :: json

text \<open>The events the client passes to \<open>sendEvent\<close>, by their \<open>type\<close>.\<close>

datatype RealtimeEvent =
    Session_update session_config
  | Conversation_item_create jsval function_output
  | Response_create
  | Response_cancel
  | Input_audio_buffer_clear
  | Input_audio_buffer_commit

subsection \<open>Observable effects\<close>

text \<open>The argument of \<open>onError\<close>: a value, a template literal, or the message the
  runtime gives a TypeError it raises itself.\<close>

datatype errtext = Plain json | Templ template | RuntimeMessage

text \<open>
  Calls the client makes on its collaborators, in the order made: the five callbacks,
  \<open>dataChannel.send\<close>, the two HTTP requests of \<open>connect\<close>, and the calls on browser
  objects, which are named by handles. The \<open>timestamp\<close> of a message (\<open>new Date()\<close>)
  and the console output are not recorded.
\<close>

datatype effect =
    OnMessage json jsstring
  | OnTranscript jsstring
  | OnError errtext
  | OnAudioLevel jsnum
  | OnNPCChange json
  | DataChannelSend nat RealtimeEvent
  | FetchSession jsstring jsstring jsstring
  | FetchSdp jsstring json jsval
  | NewPeerConnection nat
  | NewAudioElement nat
  | AddTrack nat nat
  | NewDataChannel nat nat
  | SetLocalDescription nat
  | SetRemoteDescription nat
  | SetSrcObject nat
  | ElementPlay nat
  | ElementPause nat
  | ElementRewind nat
  | ElementRemove nat
  | ContextResume nat
  | ContextClose nat
  | ChannelClose nat
  | PeerClose nat
  | TracksStop nat
  | RequestAnimationFrame nat
  | CancelAnimationFrame nat
  | SetTimeout nat

subsection \<open>The client and the browser objects it holds\<close>

datatype ready_state = Connecting | Open | Closing | Closed

datatype connection_state =
  CsNew | CsConnecting | CsConnected | CsDisconnected | CsFailed | CsClosed

datatype role = User | Assistant

text \<open>
  The fields of \<open>RealtimeClient\<close> under their names (an object reference is a handle,
  \<open>null\<close> is \<open>None\<close>), whether the two optional callbacks were given to the
  constructor, and then what the client reads from the browser objects: the
  \<open>readyState\<close> of each data channel, the \<open>connectionState\<close> of each peer connection,
  \<open>paused\<close> of each audio element and whether \<open>play()\<close> is allowed to start it, the
  \<open>state\<close> of each audio context, the first audio track of each stream and its
  \<open>enabled\<close> flag, the byte frequency data of each analyser, the animation-frame
  callbacks and timers that are pending, and the next unused handle. The last field
  \<open>effects\<close> records the calls the client has made so far, oldest first.
\<close>

record client =
  peerConnection :: "nat option"
  dataChannel :: "nat option"
  audioElement :: "nat option"
  mediaStream :: "nat option"
  isConnected :: bool
  isListening :: bool
  currentResponseId :: "json option"
  currentResponseText :: jsstring
  settings :: VoiceSettings
  isGeneratingResponse :: bool
  character :: "Character option"
  audioContext :: "nat option"
  analyser :: "nat option"
  dataArray :: "8 word list option"
  animationFrame :: "nat option"
  currentActiveNPC :: json
  isReconnecting :: bool
  conversationHistory :: "(role \<times> jsstring) list"
  has_onAudioLevel :: bool
  has_onNPCChange :: bool
  readyState :: "nat \<Rightarrow> ready_state"
  connectionState :: "nat \<Rightarrow> connection_state"
  paused :: "nat \<Rightarrow> bool"
  play_allowed :: bool
  suspended :: "nat \<Rightarrow> bool"
  has_audio_track :: "nat \<Rightarrow> bool"
  track_enabled :: "nat \<Rightarrow> bool"
  frequency_data :: "nat \<Rightarrow> 8 word list"
  pending_frames :: "nat list"
  pending_timeouts :: nat
  next_handle :: nat
  effects :: "effect list"

section \<open>Persona instructions\<close>

definition elara_prompt :: jsstring where
  \<open>elara_prompt =
     js ''You are Elara the Merchant from Moonhaven Village. '' @
     js ''You are urgent and direct, speaking quickly about '' @
     js ''the cursed goblet that must be retrieved before nightfall. '' @
     js ''You're knowledgeable about trade routes and legends, '' @
     js ''generous with rewards, but slightly nervous about '' @
     js ''the curse affecting your business. Use phrases like '' @
     js ''"Listen carefully" and "Time is running short." You'll '' @
     js ''pay 200 gold pieces for the goblet's safe return. '' @
     js ''Speak with a warm, expressive tone and slightly higher '' @
     js ''pitch to convey urgency. ''\<close>

definition thorek_prompt :: jsstring where
  \<open>thorek_prompt =
     js ''You are Thorek the Blacksmith, a gruff but kindhearted '' @
     js ''mountain dwarf. You speak slowly and deliberately '' @
     js ''with a thick accent, using "Aye" and "Nay" frequently. '' @
     js ''You're proud of your craftsmanship and concerned about '' @
     js ''young adventurers being properly equipped. You know '' @
     js ''about fighting shadow creatures from your grandfather's '' @
     js ''stories. Call people "lad," "lass," or "young one." '' @
     js ''Speak with a deep, gruff tone and slower pace to convey '' @
     js ''your dwarven nature. ''\<close>

definition grimjaw_prompt :: jsstring where
  \<open>grimjaw_prompt =
     js ''You are Grimjaw the Goblin Chieftain, cunning and '' @
     js ''aggressive but not stupid. You speak in broken Common, '' @
     js ''using phrases like "Grimjaw thinks..." and referring '' @
     js ''to yourself in third person. You control the path '' @
     js ''to the ruins and won't let "soft-skins" pass easily. '' @
     js ''You're protective of your clan and everything has '' @
     js ''a price. You can be negotiated with if shown proper '' @
     js ''respect or strength. Speak with a rougher, more guttural '' @
     js ''tone and broken grammar. ''\<close>

definition valdris_prompt :: jsstring where
  \<open>valdris_prompt =
     js ''You are Valdris the Forest Guardian, an ancient elf '' @
     js ''druid with mystical wisdom. You speak in flowing, '' @
     js ''poetic language with nature metaphors, using phrases '' @
     js ''like "The wind whispers..." and "The trees remember..." '' @
     js ''You're mysterious and cryptic, offering guidance through '' @
     js ''riddles and metaphors. You're concerned about the '' @
     js ''natural balance being disturbed by the shadow curse. '' @
     js ''Speak with a mystical, ethereal tone and flowing cadence. ''\<close>

definition malachar_prompt :: jsstring where
  \<open>malachar_prompt =
     js ''You are Malachar the Shadow Wraith, once a powerful '' @
     js ''wizard now bound to guard the cursed goblet. You speak '' @
     js ''with dramatic, archaic formality, using phrases like '' @
     js ''"Fool!" and "You dare!" You're bitter from centuries '' @
     js ''of imprisonment but still retain your intelligence. '' @
     js ''You're compelled to guard the goblet but desperately '' @
     js ''want freedom. You may help or hinder based on the '' @
     js ''party's intentions. Speak with a menacing, dramatic '' @
     js ''tone and archaic speech patterns. ''\<close>

definition dm_prompt_head :: jsstring where
  \<open>dm_prompt_head =
     js ''You are an expert Dungeon Master running a 30-minute '' @
     js ''D&D 5e adventure called "The Cursed Goblet of Shadowmere." ''\<close>

definition dm_prompt_tail :: jsstring where
  \<open>dm_prompt_tail =
     js ''\<newline>'' @
     js ''        \<newline>'' @
     js ''        Create an immersive fantasy experience with '' @
     js ''vivid scene descriptions, meaningful choices, appropriate '' @
     js ''dice rolls, rich NPCs, and a satisfying story arc. '' @
     js ''The adventure involves retrieving a cursed goblet '' @
     js ''from ruins before dark forces claim it. \<newline>'' @
     js ''        \<newline>'' @
     js ''        IMPORTANT NARRATIVE RULES:\<newline>'' @
     js ''        - Never add bracketed announcements like "[NPC '' @
     js ''is ready to engage]" \<newline>'' @
     js ''        - Let NPCs speak directly without meta-commentary\<newline>'' @
     js ''        - Describe scenes naturally without announcing '' @
     js ''NPC availability\<newline>'' @
     js ''        \<newline>'' @
     js ''        IMPORTANT: When the player's action or dialogue '' @
     js ''is directed at a specific NPC, use the route_to_npc '' @
     js ''function to hand over the conversation to that NPC. '' @
     js ''For example:\<newline>'' @
     js ''        - If player says "I ask Elara about the goblet" '' @
     [0x2192] @
     js '' call route_to_npc with "elara"\<newline>'' @
     js ''        - If player says "I want to buy weapons from '' @
     js ''the blacksmith" '' @
     [0x2192] @
     js '' call route_to_npc with "thorek" \<newline>'' @
     js ''        - If player enters combat or negotiation with '' @
     js ''goblins '' @
     [0x2192] @
     js '' call route_to_npc with "grimjaw"\<newline>'' @
     js ''        - If player seeks mystical guidance '' @
     [0x2192] @
     js '' call route_to_npc with "valdris"\<newline>'' @
     js ''        - If player faces the final boss '' @
     [0x2192] @
     js '' call route_to_npc with "malachar"\<newline>'' @
     js ''        \<newline>'' @
     js ''        Always narrate the scene first, then use route_to_npc '' @
     js ''when an NPC should speak. Do not speak for NPCs yourself.\<newline>'' @
     js ''        \<newline>'' @
     js ''        Keep responses concise but engaging. Always '' @
     js ''end with a clear choice or prompt for the player's '' @
     js ''next action.''\<close>

definition routing_suffix :: jsstring where
  \<open>routing_suffix =
     js ''\<newline>'' @
     js ''\<newline>'' @
     js ''IMPORTANT ROUTING: When your conversation with the '' @
     js ''player is complete, when they leave your area, or '' @
     js ''when they ask about things outside your expertise, '' @
     js ''use the route_to_npc function with "dm" to return '' @
     js ''control to the Dungeon Master.''\<close>


section \<open>Operations of \<open>RealtimeClient\<close>\<close>

definition emit :: "effect \<Rightarrow> client \<Rightarrow> client" where
  "emit e s = s\<lparr>effects := effects s @ [e]\<rparr>"

text \<open>\<open>if (this.onAudioLevel) this.onAudioLevel(x)\<close>, and the same for \<open>onNPCChange\<close>.\<close>

definition onAudioLevel :: "jsnum \<Rightarrow> client \<Rightarrow> client" where
  "onAudioLevel x s = (if has_onAudioLevel s then emit (OnAudioLevel x) s else s)"

definition onNPCChange :: "json \<Rightarrow> client \<Rightarrow> client" where
  "onNPCChange n s = (if has_onNPCChange s then emit (OnNPCChange n) s else s)"

definition sendEvent :: "RealtimeEvent \<Rightarrow> client \<Rightarrow> client" where
  "sendEvent event s =
     (case dataChannel s of
        Some c \<Rightarrow> if readyState s c = Open then emit (DataChannelSend c event) s else s
      | None \<Rightarrow> s)"

definition getVoiceForNPC :: "json \<Rightarrow> client \<Rightarrow> jsstring" where
  "getVoiceForNPC npcType s =
     (if npcType = JStr (js ''thorek'') then js ''echo''
      else if npcType = JStr (js ''elara'') then js ''shimmer''
      else if npcType = JStr (js ''grimjaw'') then js ''echo''
      else if npcType = JStr (js ''valdris'') then js ''verse''
      else if npcType = JStr (js ''malachar'') then js ''echo''
      else voice (settings s))"

definition characterContext :: "Character option \<Rightarrow> template" where
  "characterContext ch =
     (case ch of
        None \<Rightarrow> []
      | Some c \<Rightarrow>
          [Text (js ''\<newline>Character: ''), Subst (JStr (name c)),
           Text (js '', a ''), Subst (JStr (race c)),
           Text (js '' ''), Subst (JStr (class' c)),
           Text (js ''\<newline>Stats: STR ''), Subst (JNum (strength (stats c))),
           Text (js '', DEX ''), Subst (JNum (dexterity (stats c))),
           Text (js '', CON ''), Subst (JNum (constitution (stats c))),
           Text (js '', INT ''), Subst (JNum (intelligence (stats c))),
           Text (js '', WIS ''), Subst (JNum (wisdom (stats c))),
           Text (js '', CHA ''), Subst (JNum (charisma (stats c))),
           Text (js ''\<newline>'')])"

text \<open>The \<open>switch\<close> on \<open>npcType\<close> and the routing paragraph added for every NPC.\<close>

definition persona_instructions :: "json \<Rightarrow> Character option \<Rightarrow> template" where
  "persona_instructions npcType ch =
     (let ctx = characterContext ch;
          instructions =
            (if npcType = JStr (js ''elara'') then Text elara_prompt # ctx
             else if npcType = JStr (js ''thorek'') then Text thorek_prompt # ctx
             else if npcType = JStr (js ''grimjaw'') then Text grimjaw_prompt # ctx
             else if npcType = JStr (js ''valdris'') then Text valdris_prompt # ctx
             else if npcType = JStr (js ''malachar'') then Text malachar_prompt # ctx
             else Text dm_prompt_head # ctx @ [Text dm_prompt_tail])
      in if npcType \<noteq> JStr (js ''dm'') then instructions @ [Text routing_suffix]
         else instructions)"

definition session_for :: "json \<Rightarrow> client \<Rightarrow> session_config" where
  "session_for npcType s =
     \<lparr>modalities = [js ''text'', js ''audio''],
      instructions = persona_instructions npcType (character s),
      session_temperature = temperature (settings s),
      tools = (if npcType = JStr (js ''dm'') then [ROUTE_TO_NPC_FUNCTION] else []),
      tool_choice = (if npcType = JStr (js ''dm'') then js ''auto'' else js ''none''),
      input_audio_format = js ''pcm16'',
      output_audio_format = js ''pcm16'',
      input_audio_transcription_model = js ''whisper-1'',
      turn_detection = JNull\<rparr>"

definition updateSessionInstructions :: "json \<Rightarrow> client \<Rightarrow> client" where
  "updateSessionInstructions npcType s =
     (case dataChannel s of
        None \<Rightarrow> s
      | Some c \<Rightarrow>
          if readyState s c \<noteq> Open then s
          else sendEvent (Session_update (session_for npcType s)) s)"

definition initializeSession :: "client \<Rightarrow> client" where
  "initializeSession s =
     (case dataChannel s of
        None \<Rightarrow> s
      | Some c \<Rightarrow>
          if readyState s c \<noteq> Open then s
          else updateSessionInstructions (JStr (js ''dm''))
                 (onNPCChange (JStr (js ''dm''))
                    (s\<lparr>currentActiveNPC := JStr (js ''dm'')\<rparr>)))"

subsection \<open>Audio analysis and level monitoring\<close>

text \<open>
  What the browser does in \<open>setupAudioAnalysis\<close>: \<open>new AudioContext()\<close> raises, or
  the context exists (suspended or not) and a later call raises, or all calls succeed.
\<close>

datatype analysis_outcome = ContextThrows | SourceThrows bool | AnalysisReady bool

definition setupAudioAnalysis :: "analysis_outcome \<Rightarrow> client \<Rightarrow> client" where
  "setupAudioAnalysis out s =
     (case mediaStream s of
        None \<Rightarrow> s
      | Some m \<Rightarrow>
          (case out of
             ContextThrows \<Rightarrow> s
           | SourceThrows susp \<Rightarrow>
               (let x = next_handle s
                in s\<lparr>audioContext := Some x, suspended := (suspended s)(x := susp),
                      next_handle := Suc x\<rparr>)
           | AnalysisReady susp \<Rightarrow>
               (let x = next_handle s; a = Suc x
                in s\<lparr>audioContext := Some x, suspended := (suspended s)(x := susp),
                      analyser := Some a, dataArray := Some (replicate 128 0),
                      next_handle := Suc a\<rparr>)))"

text \<open>
  \<open>getByteFrequencyData(array)\<close> copies the analyser's data into the array, as many
  bytes as fit; the array keeps its length.
\<close>

definition getByteFrequencyData :: "8 word list \<Rightarrow> 8 word list \<Rightarrow> 8 word list" where
  "getByteFrequencyData freq arr = take (length arr) freq @ drop (length freq) arr"

text \<open>\<open>Math.min(average / 128, 1)\<close> with \<open>average\<close> the sum of the bytes over their number.\<close>

definition normalizedLevel :: "8 word list \<Rightarrow> jsnum" where
  "normalizedLevel arr =
     Math_min_1
       (js_div (js_div (Num (of_nat (sum_list (map unat arr)))) (Num (of_nat (length arr))))
          (Num 128))"

definition updateLevel :: "client \<Rightarrow> client" where
  "updateLevel s =
     (case (analyser s, dataArray s) of
        (Some a, Some arr) \<Rightarrow>
          if \<not> isListening s then onAudioLevel (Num 0) s
          else
            (let arr' = getByteFrequencyData (frequency_data s a) arr;
                 s1 = onAudioLevel (normalizedLevel arr') (s\<lparr>dataArray := Some arr'\<rparr>);
                 h = next_handle s1
             in emit (RequestAnimationFrame h)
                  (s1\<lparr>animationFrame := Some h,
                       pending_frames := pending_frames s1 @ [h],
                       next_handle := Suc h\<rparr>))
      | _ \<Rightarrow> onAudioLevel (Num 0) s)"

definition startAudioLevelMonitoring :: "client \<Rightarrow> client" where
  "startAudioLevelMonitoring s =
     (if analyser s = None \<or> dataArray s = None \<or> \<not> has_onAudioLevel s then s
      else updateLevel s)"

definition stopAudioLevelMonitoring :: "client \<Rightarrow> client" where
  "stopAudioLevelMonitoring s =
     onAudioLevel (Num 0)
       (case animationFrame s of
          None \<Rightarrow> s
        | Some h \<Rightarrow>
            if h = 0 then s
            else emit (CancelAnimationFrame h)
                   (s\<lparr>pending_frames := removeAll h (pending_frames s),
                       animationFrame := None\<rparr>))"


subsection \<open>Routing inside the session\<close>

definition switchToNPCInSession :: "json \<Rightarrow> jsval \<Rightarrow> client \<Rightarrow> client" where
  "switchToNPCInSession npcName callId s =
     (let s1 = onNPCChange npcName (s\<lparr>currentActiveNPC := npcName\<rparr>);
          functionResponse =
            Conversation_item_create callId
              \<lparr>status = js ''success'',
               message = [Text (js ''Now speaking as ''), Subst npcName],
               npc = npcName\<rparr>;
          s2 = sendEvent functionResponse s1;
          s3 = updateSessionInstructions npcName s2
      in emit (SetTimeout 100) (s3\<lparr>pending_timeouts := Suc (pending_timeouts s3)\<rparr>))"

text \<open>
  The methods of \<open>RealtimeClient\<close> that take \<open>(npcName, callId)\<close>, by name. A call
  \<open>this.m(npcName, callId)\<close> looks \<open>m\<close> up on the object: a name that is not there
  reads as \<open>undefined\<close>, and calling \<open>undefined\<close> raises TypeError.
\<close>

definition RealtimeClient_methods :: "(string \<times> (json \<Rightarrow> jsval \<Rightarrow> client \<Rightarrow> client)) list" where
  "RealtimeClient_methods = [(''switchToNPCInSession'', switchToNPCInSession)]"

definition call_method :: "string \<Rightarrow> json \<Rightarrow> jsval \<Rightarrow> client \<Rightarrow> js_error + client" where
  "call_method m npcName callId s =
     (case map_of RealtimeClient_methods m of
        None \<Rightarrow> Inl TypeError
      | Some f \<Rightarrow> Inr (f npcName callId s))"

subsection \<open>The inbound event handler\<close>

text \<open>
  \<open>JSON.parse\<close> is a parameter of the handler: applied to a value, it gives the parsed
  JSON or raises SyntaxError.
\<close>

type_synonym parser = "jsval \<Rightarrow> js_error + json"

text \<open>\<open>event.data\<close> of a MessageEvent: a string, or something that is not a string.\<close>

datatype message_data = NonString | StringData jsstring

definition push_user_transcript :: "jsstring \<Rightarrow> client \<Rightarrow> client" where
  "push_user_transcript cleanedTranscript s =
     emit (OnTranscript cleanedTranscript)
       (s\<lparr>conversationHistory := conversationHistory s @ [(User, cleanedTranscript)]\<rparr>)"

definition on_transcription_completed :: "json \<Rightarrow> client \<Rightarrow> client" where
  "on_transcription_completed data s =
     (case get_prop (Some data) (js ''transcript'') of
        Inr (Some (JStr t)) \<Rightarrow>
          if t \<noteq> [] \<and> trim t \<noteq> [] then
            (let cleanedTranscript = trim (remove_notes t)
             in if cleanedTranscript \<noteq> [] then push_user_transcript cleanedTranscript s
                else s)
          else s
      | _ \<Rightarrow> s)"

definition on_item_created :: "json \<Rightarrow> client \<Rightarrow> client" where
  "on_item_created data s =
     (case get_prop (Some data) (js ''item'') of
        Inl e \<Rightarrow> s
      | Inr item \<Rightarrow>
          if str_eq (opt_prop item (js ''type'')) (js ''message'')
             \<and> str_eq (opt_prop item (js ''role'')) (js ''user'')
          then
            (case get_prop item (js ''content'') of
               Inl e \<Rightarrow> s
             | Inr c \<Rightarrow>
                 (let content = opt_first c
                  in if str_eq (opt_prop content (js ''type'')) (js ''input_audio'')
                        \<and> truthy (opt_prop content (js ''transcript''))
                     then
                       (case opt_prop content (js ''transcript'') of
                          Some (JStr t) \<Rightarrow>
                            (let cleanedTranscript = trim (remove_notes t)
                             in if cleanedTranscript \<noteq> []
                                then push_user_transcript cleanedTranscript s
                                else s)
                        | _ \<Rightarrow> s)
                     else s))
          else s)"

definition on_response_created :: "json \<Rightarrow> client \<Rightarrow> client" where
  "on_response_created data s =
     (case get_prop (Some data) (js ''response'') of
        Inl e \<Rightarrow> s
      | Inr response \<Rightarrow>
          (let rid = opt_prop response (js ''id'');
               s1 = s\<lparr>currentResponseId := (if truthy rid then rid else None),
                       currentResponseText := [],
                       isGeneratingResponse := True\<rparr>;
               s2 = onAudioLevel (Num (7 / 10)) s1
           in case audioElement s2 of
                None \<Rightarrow> s2
              | Some a \<Rightarrow>
                  if paused s2 a then
                    emit (ElementPlay a)
                      (if play_allowed s2 then s2\<lparr>paused := (paused s2)(a := False)\<rparr> else s2)
                  else s2))"

definition on_transcript_delta :: "json \<Rightarrow> client \<Rightarrow> client" where
  "on_transcript_delta data s =
     (case get_prop (Some data) (js ''delta'') of
        Inr (Some (JStr d)) \<Rightarrow>
          if d \<noteq> [] then s\<lparr>currentResponseText := currentResponseText s @ d\<rparr> else s
      | _ \<Rightarrow> s)"

definition on_transcript_done :: "client \<Rightarrow> client" where
  "on_transcript_done s =
     (let s1 =
            (if trim (currentResponseText s) \<noteq> [] then
               emit (OnMessage (currentActiveNPC s) (trim (currentResponseText s)))
                 (s\<lparr>conversationHistory :=
                      conversationHistory s @ [(Assistant, trim (currentResponseText s))]\<rparr>)
             else s);
          s2 = s1\<lparr>currentResponseText := [], currentResponseId := None,
                  isGeneratingResponse := False\<rparr>
      in onAudioLevel (Num 0) s2)"

text \<open>
  The body of the inner \<open>try\<close> for one \<open>route_to_npc\<close> output item; whatever it
  raises is caught by the inner \<open>catch\<close>, which only logs. The call at the end is
  written in the source as \<open>this.switchNPCInSession(npcName, output.call_id)\<close>.
\<close>

definition route_call :: "parser \<Rightarrow> json \<Rightarrow> client \<Rightarrow> client" where
  "route_call JSON_parse output s =
     (case JSON_parse (opt_prop (Some output) (js ''arguments'')) of
        Inl e \<Rightarrow> s
      | Inr args \<Rightarrow>
          (case get_prop (Some args) (js ''npc_name'') of
             Inl e \<Rightarrow> s
           | Inr None \<Rightarrow> s
           | Inr (Some npcName) \<Rightarrow>
               if truthy (Some npcName) \<and> \<not> strict_eq npcName (currentActiveNPC s) then
                 (case call_method ''switchNPCInSession'' npcName
                         (opt_prop (Some output) (js ''call_id'')) s of
                    Inl e \<Rightarrow> s
                  | Inr s' \<Rightarrow> s')
               else s))"

text \<open>
  The \<open>for ... of\<close> loop over the output items. Reading \<open>output.type\<close> of a \<open>null\<close>
  item raises outside the inner \<open>try\<close>: the loop ends there and the outer \<open>catch\<close>
  logs.
\<close>

fun scan_outputs :: "parser \<Rightarrow> json list \<Rightarrow> client \<Rightarrow> client" where
  "scan_outputs JSON_parse [] s = s"
| "scan_outputs JSON_parse (output # rest) s =
     (case get_prop (Some output) (js ''type'') of
        Inl e \<Rightarrow> s
      | Inr ty \<Rightarrow>
          if str_eq ty (js ''function_call'')
             \<and> str_eq (opt_prop (Some output) (js ''name'')) (js ''route_to_npc'')
          then scan_outputs JSON_parse rest (route_call JSON_parse output s)
          else scan_outputs JSON_parse rest s)"

text \<open>The string iterator yields code points: a surrogate pair is one element.\<close>

fun code_points :: "jsstring \<Rightarrow> jsstring list" where
  "code_points (a # b # cs) =
     (if 0xD800 \<le> a \<and> a \<le> 0xDBFF \<and> 0xDC00 \<le> b \<and> b \<le> 0xDFFF
      then [a, b] # code_points cs else [a] # code_points (b # cs))"
| "code_points [a] = [[a]]"
| "code_points [] = []"

text \<open>What \<open>for (const x of v)\<close> iterates over; \<open>None\<close> when \<open>v\<close> is not iterable.\<close>

fun iterate :: "jsval \<Rightarrow> json list option" where
  "iterate (Some (JArr xs)) = Some xs"
| "iterate (Some (JStr t)) = Some (map JStr (code_points t))"
| "iterate v = None"

definition on_response_done :: "parser \<Rightarrow> json \<Rightarrow> client \<Rightarrow> client" where
  "on_response_done JSON_parse data s =
     (let s1 = onAudioLevel (Num 0) (s\<lparr>isGeneratingResponse := False\<rparr>)
      in case get_prop (Some data) (js ''response'') of
           Inl e \<Rightarrow> s1
         | Inr response \<Rightarrow>
             if truthy (opt_prop response (js ''output'')) then
               (case iterate (opt_prop response (js ''output'')) of
                  None \<Rightarrow> s1
                | Some outputs \<Rightarrow> scan_outputs JSON_parse outputs s1)
             else s1)"

definition benign_cancellation :: jsstring where
  "benign_cancellation = js ''Cancellation failed: no active response found''"

text \<open>
  \<open>errorMessage.includes(...)\<close> is the string method on a string and the array method
  on an array; any other value has no \<open>includes\<close> and the call raises TypeError, which
  the outer \<open>catch\<close> logs.
\<close>

definition on_error :: "json \<Rightarrow> client \<Rightarrow> client" where
  "on_error data s =
     (case get_prop (Some data) (js ''error'') of
        Inl e \<Rightarrow> s
      | Inr err \<Rightarrow>
          (let errorMessage =
                 (case opt_prop err (js ''message'') of
                    None \<Rightarrow> JStr (js ''Unknown API error'')
                  | Some m \<Rightarrow> if truthy (Some m) then m else JStr (js ''Unknown API error''))
           in case errorMessage of
                JStr t \<Rightarrow>
                  if str_includes t benign_cancellation then s
                  else emit (OnError (Plain errorMessage)) s
              | JArr xs \<Rightarrow>
                  if JStr benign_cancellation \<in> set xs then s
                  else emit (OnError (Plain errorMessage)) s
              | _ \<Rightarrow> s))"

definition handleDataChannelMessage :: "parser \<Rightarrow> message_data \<Rightarrow> client \<Rightarrow> client" where
  "handleDataChannelMessage JSON_parse event_data s =
     (case event_data of
        NonString \<Rightarrow> s
      | StringData raw \<Rightarrow>
          if raw = [] then s
          else
            (case JSON_parse (Some (JStr raw)) of
               Inl e \<Rightarrow> s
             | Inr data \<Rightarrow>
                 if \<not> truthy (Some data) then s
                 else
                   (case get_prop (Some data) (js ''type'') of
                      Inr (Some (JStr ty)) \<Rightarrow>
                        if ty = js ''input_audio_buffer.speech_started'' then s
                        else if ty = js ''input_audio_buffer.speech_stopped'' then s
                        else if ty = js ''conversation.item.input_audio_transcription.completed''
                          then on_transcription_completed data s
                        else if ty = js ''conversation.item.created''
                          then on_item_created data s
                        else if ty = js ''response.created''
                          then on_response_created data s
                        else if ty = js ''response.audio_transcript.delta''
                          then on_transcript_delta data s
                        else if ty = js ''response.audio_transcript.done''
                          then on_transcript_done s
                        else if ty = js ''response.done''
                          then on_response_done JSON_parse data s
                        else if ty = js ''error'' then on_error data s
                        else s
                    | _ \<Rightarrow> s)))"


subsection \<open>Listening\<close>

definition cancelResponse :: "client \<Rightarrow> client" where
  "cancelResponse s =
     (if isGeneratingResponse s then
        onAudioLevel (Num 0)
          ((sendEvent Response_cancel s)
             \<lparr>isGeneratingResponse := False, currentResponseText := [],
              currentResponseId := None\<rparr>)
      else s)"

text \<open>\<open>if (this.audioContext?.state === 'suspended') this.audioContext.resume()\<close>\<close>

definition resume_context :: "client \<Rightarrow> client" where
  "resume_context s =
     (case audioContext s of
        None \<Rightarrow> s
      | Some x \<Rightarrow> if suspended s x then emit (ContextResume x) s else s)"

text \<open>\<open>if (this.audioElement) { pause(); currentTime = 0 }\<close>\<close>

definition stop_playback :: "client \<Rightarrow> client" where
  "stop_playback s =
     (case audioElement s of
        None \<Rightarrow> s
      | Some a \<Rightarrow>
          emit (ElementRewind a) (emit (ElementPause a) (s\<lparr>paused := (paused s)(a := True)\<rparr>)))"

text \<open>\<open>const audioTrack = stream.getAudioTracks()[0]; if (audioTrack) audioTrack.enabled = b\<close>\<close>

definition set_track_enabled :: "nat \<Rightarrow> bool \<Rightarrow> client \<Rightarrow> client" where
  "set_track_enabled m b s =
     (if has_audio_track s m then s\<lparr>track_enabled := (track_enabled s)(m := b)\<rparr> else s)"

definition startListening :: "client \<Rightarrow> bool \<times> client" where
  "startListening s =
     (case mediaStream s of
        None \<Rightarrow> (False, s)
      | Some m \<Rightarrow>
          if isConnected s \<and> \<not> isListening s then
            (let s1 = resume_context s;
                 s2 = cancelResponse s1;
                 s3 = stop_playback s2;
                 s4 = set_track_enabled m True s3;
                 s5 = s4\<lparr>isListening := True\<rparr>;
                 s6 = sendEvent Input_audio_buffer_clear s5
             in (True, startAudioLevelMonitoring s6))
          else (False, s))"

definition stopListening :: "client \<Rightarrow> client" where
  "stopListening s =
     (case mediaStream s of
        None \<Rightarrow> s
      | Some m \<Rightarrow>
          if isConnected s \<and> isListening s then
            (let s1 = cancelResponse s;
                 s2 = stop_playback s1;
                 s3 = stopAudioLevelMonitoring s2;
                 s4 = set_track_enabled m False s3;
                 s5 = s4\<lparr>isListening := False\<rparr>;
                 s6 = sendEvent Input_audio_buffer_commit s5
             in sendEvent Response_create s6)
          else s)"

subsection \<open>Disconnecting\<close>

text \<open>\<open>RTCDataChannel.close()\<close> moves a channel that is not closed to \<open>closing\<close>.\<close>

definition close_channel :: "ready_state \<Rightarrow> ready_state" where
  "close_channel r = (if r = Closed then Closed else Closing)"

definition disconnect :: "client \<Rightarrow> client" where
  "disconnect s =
     (let s1 = stopAudioLevelMonitoring s;
          s2 = (case audioContext s1 of
                  None \<Rightarrow> s1
                | Some x \<Rightarrow> (emit (ContextClose x) s1)\<lparr>audioContext := None\<rparr>);
          s3 = (case dataChannel s2 of
                  None \<Rightarrow> s2
                | Some c \<Rightarrow>
                    (emit (ChannelClose c) s2)
                      \<lparr>readyState := (readyState s2)(c := close_channel (readyState s2 c)),
                       dataChannel := None\<rparr>);
          s4 = (case peerConnection s3 of
                  None \<Rightarrow> s3
                | Some p \<Rightarrow>
                    (emit (PeerClose p) s3)
                      \<lparr>connectionState := (connectionState s3)(p := CsClosed),
                       peerConnection := None\<rparr>);
          s5 = (case mediaStream s4 of
                  None \<Rightarrow> s4
                | Some m \<Rightarrow> (emit (TracksStop m) s4)\<lparr>mediaStream := None\<rparr>);
          s6 = (case audioElement s5 of
                  None \<Rightarrow> s5
                | Some a \<Rightarrow> (emit (ElementRemove a) s5)\<lparr>audioElement := None\<rparr>)
      in s6\<lparr>isConnected := False, isListening := False, isGeneratingResponse := False\<rparr>)"

definition getConnectionState :: "client \<Rightarrow> bool \<times> bool \<times> bool" where
  "getConnectionState s = (isConnected s, isListening s, isGeneratingResponse s)"

subsection \<open>Connecting\<close>

text \<open>
  \<open>connect\<close> is an \<open>async\<close> function; what each awaited call does is given by the
  environment: it raises (an \<open>Error\<close> with a message, or some other value) or it
  gives its result. The model runs the function to its end with these outcomes.
\<close>

datatype thrown = Err errtext | NonError

datatype 'a attempt = Throws thrown | Gives 'a

record http_response =
  ok :: bool
  http_status :: rat
  text_body :: "jsstring attempt"
  json_body :: "json attempt"

record connect_env =
  token_response :: "http_response attempt"
  user_media :: "bool attempt"
  audio_analysis :: analysis_outcome
  offer :: "jsval attempt"
  local_description :: "unit attempt"
  sdp_response :: "http_response attempt"
  remote_description :: "unit attempt"

text \<open>The \<open>catch\<close> block of \<open>connect\<close>.\<close>

definition connect_catch :: "thrown \<Rightarrow> client \<Rightarrow> client" where
  "connect_catch e s =
     (let s1 = emit (OnError (case e of
                                Err m \<Rightarrow> m
                              | NonError \<Rightarrow> Plain (JStr (js ''Connection failed'')))) s
      in if apiKey (settings s1) = []
         then emit (OnError (Plain (JStr (js ''OpenAI API key required for voice interaction'')))) s1
         else s1)"

text \<open>From \<open>createOffer\<close> to \<open>setRemoteDescription\<close>.\<close>

definition connect_signaling :: "connect_env \<Rightarrow> json \<Rightarrow> client \<Rightarrow> client" where
  "connect_signaling env ephemeralKey s =
     (case peerConnection s of
        None \<Rightarrow> connect_catch (Err RuntimeMessage) s
      | Some p \<Rightarrow>
          (case offer env of
             Throws e \<Rightarrow> connect_catch e s
           | Gives sdp \<Rightarrow>
               (let s1 = emit (SetLocalDescription p) s
                in case local_description env of
                     Throws e \<Rightarrow> connect_catch e s1
                   | Gives u \<Rightarrow>
                       (let s2 = emit (FetchSdp (model (settings s1)) ephemeralKey sdp) s1
                        in case sdp_response env of
                             Throws e \<Rightarrow> connect_catch e s2
                           | Gives r \<Rightarrow>
                               if \<not> ok r then
                                 connect_catch
                                   (Err (Plain (JStr (js ''Failed to establish WebRTC connection''))))
                                   s2
                               else
                                 (case text_body r of
                                    Throws e \<Rightarrow> connect_catch e s2
                                  | Gives answer \<Rightarrow>
                                      (let s3 = emit (SetRemoteDescription p) s2
                                       in case remote_description env of
                                            Throws e \<Rightarrow> connect_catch e s3
                                          | Gives u' \<Rightarrow> s3))))))"

text \<open>
  From \<open>new RTCPeerConnection\<close> to \<open>createDataChannel\<close>: the new objects get fresh
  handles and overwrite the fields. A new audio element is paused, a new track is
  enabled, a new data channel is \<open>connecting\<close>.
\<close>

definition connect_media :: "connect_env \<Rightarrow> json \<Rightarrow> client \<Rightarrow> client" where
  "connect_media env ephemeralKey s =
     (let p = next_handle s;
          s1 = emit (NewPeerConnection p)
                 (s\<lparr>peerConnection := Some p,
                    connectionState := (connectionState s)(p := CsNew),
                    next_handle := Suc p\<rparr>);
          a = next_handle s1;
          s2 = emit (NewAudioElement a)
                 (s1\<lparr>audioElement := Some a, paused := (paused s1)(a := True),
                     next_handle := Suc a\<rparr>)
      in case user_media env of
           Throws e \<Rightarrow>
             emit (OnError (Plain (JStr (js ''Microphone access required for voice interaction'')))) s2
         | Gives hasTrack \<Rightarrow>
             (let m = next_handle s2;
                  s3 = s2\<lparr>mediaStream := Some m,
                          has_audio_track := (has_audio_track s2)(m := hasTrack),
                          track_enabled := (track_enabled s2)(m := True),
                          next_handle := Suc m\<rparr>;
                  s4 = (if hasTrack then
                          setupAudioAnalysis (audio_analysis env)
                            (emit (AddTrack p m)
                               (s3\<lparr>track_enabled := (track_enabled s3)(m := False)\<rparr>))
                        else s3);
                  c = next_handle s4;
                  s5 = emit (NewDataChannel p c)
                         (s4\<lparr>dataChannel := Some c,
                             readyState := (readyState s4)(c := Connecting),
                             next_handle := Suc c\<rparr>)
              in connect_signaling env ephemeralKey s5))"

definition connect :: "connect_env \<Rightarrow> client \<Rightarrow> client" where
  "connect env s =
     (if apiKey (settings s) = [] then
        emit (OnError (Plain (JStr (js ''OpenAI API key required for voice interaction'')))) s
      else
        (let voiceToUse = getVoiceForNPC (currentActiveNPC s) s;
             s1 = emit (FetchSession (apiKey (settings s)) (model (settings s)) voiceToUse) s
         in case token_response env of
              Throws e \<Rightarrow> connect_catch e s1
            | Gives r \<Rightarrow>
                if \<not> ok r then
                  (case text_body r of
                     Throws e \<Rightarrow> connect_catch e s1
                   | Gives errorText \<Rightarrow>
                       connect_catch
                         (Err (Templ [Text (js ''OpenAI API error: ''), Subst (JNum (http_status r)),
                                      Text (js '' - ''), Subst (JStr errorText)]))
                         s1)
                else
                  (case json_body r of
                     Throws e \<Rightarrow> connect_catch e s1
                   | Gives data \<Rightarrow>
                       (case get_prop (Some data) (js ''client_secret'') of
                          Inl e \<Rightarrow> connect_catch (Err RuntimeMessage) s1
                        | Inr secret \<Rightarrow>
                            (case opt_prop secret (js ''value'') of
                               None \<Rightarrow>
                                 connect_catch
                                   (Err (Plain (JStr (js ''Invalid session response'')))) s1
                             | Some ephemeralKey \<Rightarrow>
                                 if truthy (Some ephemeralKey)
                                 then connect_media env ephemeralKey s1
                                 else connect_catch
                                        (Err (Plain (JStr (js ''Invalid session response''))))
                                        s1)))))"

subsection \<open>Listeners registered by \<open>connect\<close>\<close>

text \<open>The \<open>open\<close> and \<open>error\<close> listeners of the data channel.\<close>

definition on_channel_open :: "client \<Rightarrow> client" where
  "on_channel_open s =
     initializeSession
       (s\<lparr>isConnected := True, isListening := False, isGeneratingResponse := False\<rparr>)"

definition on_channel_error :: "client \<Rightarrow> client" where
  "on_channel_error s = emit (OnError (Plain (JStr (js ''Communication channel error'')))) s"

text \<open>\<open>ontrack\<close>, for an event with \<open>n\<close> streams, and \<open>onconnectionstatechange\<close>.\<close>

definition ontrack :: "nat \<Rightarrow> client \<Rightarrow> client" where
  "ontrack n s =
     (case audioElement s of
        None \<Rightarrow> s
      | Some a \<Rightarrow> if n > 0 then emit (SetSrcObject a) s else s)"

definition onconnectionstatechange :: "client \<Rightarrow> client" where
  "onconnectionstatechange s =
     (case peerConnection s of
        None \<Rightarrow> s
      | Some p \<Rightarrow>
          if connectionState s p = CsFailed then
            emit (OnError (Plain (JStr
              (js ''Voice connection failed - please check your internet connection'')))) s
          else s)"

text \<open>The callback of the \<open>setTimeout\<close> in \<open>switchToNPCInSession\<close>.\<close>

definition on_timeout :: "client \<Rightarrow> client" where
  "on_timeout s = sendEvent Response_create s"


section \<open>The client in its environment\<close>

text \<open>
  What can happen to a client: a call of one of its public methods, or an event of
  the browser. The events that run a listener are those of objects the client has
  created: a data channel opens (once, from \<open>connecting\<close>), delivers a message,
  reports an error or closes; a peer connection delivers a track or changes its
  connection state; an animation frame or a timer that is pending fires. The
  remaining events change only what the client reads from the browser objects.
\<close>

datatype action =
    Connect connect_env
  | Disconnect
  | StartListening
  | StopListening
  | UpdateSessionInstructions json
  | SendEvent RealtimeEvent
  | ChannelOpens nat
  | ChannelCloses nat
  | ChannelMessage nat message_data
  | ChannelError nat
  | Track nat nat
  | ConnectionStateChange nat connection_state
  | AnimationFrame nat
  | Timeout
  | Playback nat bool
  | AutoplayPolicy bool
  | ContextState nat bool
  | FrequencyData nat "8 word list"

definition step :: "parser \<Rightarrow> action \<Rightarrow> client \<Rightarrow> client" where
  "step JSON_parse a s =
     (case a of
        Connect env \<Rightarrow> connect env s
      | Disconnect \<Rightarrow> disconnect s
      | StartListening \<Rightarrow> snd (startListening s)
      | StopListening \<Rightarrow> stopListening s
      | UpdateSessionInstructions npcType \<Rightarrow> updateSessionInstructions npcType s
      | SendEvent event \<Rightarrow> sendEvent event s
      | ChannelOpens c \<Rightarrow>
          if readyState s c = Connecting
          then on_channel_open (s\<lparr>readyState := (readyState s)(c := Open)\<rparr>)
          else s
      | ChannelCloses c \<Rightarrow> s\<lparr>readyState := (readyState s)(c := Closed)\<rparr>
      | ChannelMessage c event_data \<Rightarrow>
          if readyState s c = Open \<or> readyState s c = Closing
          then handleDataChannelMessage JSON_parse event_data s
          else s
      | ChannelError c \<Rightarrow> if readyState s c \<noteq> Closed then on_channel_error s else s
      | Track p n \<Rightarrow> if connectionState s p \<noteq> CsClosed then ontrack n s else s
      | ConnectionStateChange p st \<Rightarrow>
          if connectionState s p \<noteq> CsClosed
          then onconnectionstatechange (s\<lparr>connectionState := (connectionState s)(p := st)\<rparr>)
          else s
      | AnimationFrame h \<Rightarrow>
          if h \<in> set (pending_frames s)
          then updateLevel (s\<lparr>pending_frames := removeAll h (pending_frames s)\<rparr>)
          else s
      | Timeout \<Rightarrow>
          if pending_timeouts s > 0
          then on_timeout (s\<lparr>pending_timeouts := pending_timeouts s - 1\<rparr>)
          else s
      | Playback a b \<Rightarrow> s\<lparr>paused := (paused s)(a := b)\<rparr>
      | AutoplayPolicy b \<Rightarrow> s\<lparr>play_allowed := b\<rparr>
      | ContextState x b \<Rightarrow> s\<lparr>suspended := (suspended s)(x := b)\<rparr>
      | FrequencyData a bins \<Rightarrow> s\<lparr>frequency_data := (frequency_data s)(a := bins)\<rparr>)"

fun run :: "parser \<Rightarrow> action list \<Rightarrow> client \<Rightarrow> client" where
  "run JSON_parse [] s = s"
| "run JSON_parse (a # as) s = run JSON_parse as (step JSON_parse a s)"

text \<open>
  The constructor with the field initialisers: the character, the settings, and
  whether \<open>onAudioLevel\<close> and \<open>onNPCChange\<close> are given. No browser object exists yet.
\<close>

definition new_client :: "Character option \<Rightarrow> VoiceSettings \<Rightarrow> bool \<Rightarrow> bool \<Rightarrow> client" where
  "new_client ch st audioLevelCb npcChangeCb =
     \<lparr>peerConnection = None, dataChannel = None, audioElement = None, mediaStream = None,
      isConnected = False, isListening = False, currentResponseId = None,
      currentResponseText = [], settings = st, isGeneratingResponse = False,
      character = ch, audioContext = None, analyser = None, dataArray = None,
      animationFrame = None, currentActiveNPC = JStr (js ''dm''), isReconnecting = False,
      conversationHistory = [], has_onAudioLevel = audioLevelCb,
      has_onNPCChange = npcChangeCb,
      readyState = (\<lambda>c. Closed), connectionState = (\<lambda>p. CsClosed),
      paused = (\<lambda>a. True), play_allowed = True, suspended = (\<lambda>x. False),
      has_audio_track = (\<lambda>m. False), track_enabled = (\<lambda>m. False),
      frequency_data = (\<lambda>a. []), pending_frames = [], pending_timeouts = 0,
      next_handle = 1, effects = []\<rparr>"

inductive reachable :: "parser \<Rightarrow> client \<Rightarrow> bool" for JSON_parse :: parser where
  reachable_new: "reachable JSON_parse (new_client ch st audioLevelCb npcChangeCb)"
| reachable_step: "reachable JSON_parse s \<Longrightarrow> reachable JSON_parse (step JSON_parse a s)"

section \<open>Vocabulary of the properties\<close>

text \<open>
  The data channel delivers the string \<open>raw\<close>, which parses to an object \<open>data\<close> whose
  \<open>type\<close> is the string \<open>ty\<close>.
\<close>

definition parses_as :: "parser \<Rightarrow> jsstring \<Rightarrow> json \<Rightarrow> jsstring \<Rightarrow> bool" where
  "parses_as JSON_parse raw data ty \<longleftrightarrow>
     raw \<noteq> [] \<and> JSON_parse (Some (JStr raw)) = Inr data
     \<and> get_prop (Some data) (js ''type'') = Inr (Some (JStr ty))"

text \<open>The values passed to \<open>onAudioLevel\<close> among some effects.\<close>

fun levels :: "effect list \<Rightarrow> jsnum list" where
  "levels [] = []"
| "levels (OnAudioLevel x # es) = x # levels es"
| "levels (e # es) = levels es"

fun in_unit_interval :: "jsnum \<Rightarrow> bool" where
  "in_unit_interval (Num r) = (0 \<le> r \<and> r \<le> 1)"
| "in_unit_interval NaN = False"

text \<open>Calls that release a browser object.\<close>

fun is_teardown :: "effect \<Rightarrow> bool" where
  "is_teardown (ContextClose x) = True"
| "is_teardown (ChannelClose c) = True"
| "is_teardown (PeerClose p) = True"
| "is_teardown (TracksStop m) = True"
| "is_teardown (ElementRemove a) = True"
| "is_teardown (CancelAnimationFrame h) = True"
| "is_teardown e = False"

text \<open>The in-flight response is cleared.\<close>

definition response_cleared :: "client \<Rightarrow> bool" where
  "response_cleared s \<longleftrightarrow>
     currentResponseText s = [] \<and> currentResponseId s = None \<and> \<not> isGeneratingResponse s"


text \<open>The events sent on the data channel among some effects, oldest first.\<close>

fun sends :: "effect list \<Rightarrow> RealtimeEvent list" where
  "sends [] = []"
| "sends (DataChannelSend c event # es) = event # sends es"
| "sends (e # es) = sends es"

text \<open>The guard of \<open>sendEvent\<close>: the client holds a data channel and it is open.\<close>

definition channel_open :: "client \<Rightarrow> bool" where
  "channel_open s = (case dataChannel s of None \<Rightarrow> False | Some c \<Rightarrow> readyState s c = Open)"

text \<open>
  An output item is a \<open>function_call\<close> named \<open>route_to_npc\<close>; and its arguments parse
  to an object whose \<open>npc_name\<close> is strictly equal to the active persona.
\<close>

definition is_route_call :: "json \<Rightarrow> bool" where
  "is_route_call output \<longleftrightarrow>
     str_eq (opt_prop (Some output) (js ''type'')) (js ''function_call'')
     \<and> str_eq (opt_prop (Some output) (js ''name'')) (js ''route_to_npc'')"



text \<open>\<open>data.error?.message\<close> of an \<open>error\<close> event.\<close>

definition error_message :: "json \<Rightarrow> jsval" where
  "error_message data = opt_prop (opt_prop (Some data) (js ''error'')) (js ''message'')"

text \<open>The output items of a \<open>response.done\<close> event that the handler's loop visits.\<close>

definition output_items :: "json \<Rightarrow> json list" where
  "output_items data =
     (case iterate (opt_prop (opt_prop (Some data) (js ''response'')) (js ''output'')) of
        None \<Rightarrow> []
      | Some outputs \<Rightarrow> outputs)"

definition names_active_persona :: "parser \<Rightarrow> client \<Rightarrow> json \<Rightarrow> bool" where
  "names_active_persona JSON_parse s output =
     (case JSON_parse (opt_prop (Some output) (js ''arguments'')) of
        Inl e \<Rightarrow> False
      | Inr args \<Rightarrow>
          (case opt_prop (Some args) (js ''npc_name'') of
             None \<Rightarrow> False
           | Some npcName \<Rightarrow> strict_eq npcName (currentActiveNPC s)))"

section \<open>Sample values\<close>

definition sample_settings :: VoiceSettings where
  "sample_settings =
     \<lparr>apiKey = js ''sk-test'', model = js ''gpt-4o-mini-realtime-preview-2024-12-17'',
      voice = js ''verse'', temperature = 8 / 10\<rparr>"

definition hero :: Character where
  "hero =
     \<lparr>id' = js ''c1'', name = js ''Aria'', class' = js ''Wizard'', race = js ''Elf'',
      stats = \<lparr>strength = 8, dexterity = 14, constitution = 12, intelligence = 17,
               wisdom = 13, charisma = 10\<rparr>\<rparr>"

definition session_response :: http_response where
  "session_response =
     \<lparr>ok = True, http_status = 200, text_body = Gives (js ''ok''),
      json_body = Gives (JObj [(js ''client_secret'', JObj [(js ''value'', JStr (js ''ek_1''))])])\<rparr>"

definition sdp_answer :: http_response where
  "sdp_answer =
     \<lparr>ok = True, http_status = 201, text_body = Gives (js ''v=0''),
      json_body = Throws (Err RuntimeMessage)\<rparr>"

text \<open>An environment in which every step of \<open>connect\<close> succeeds.\<close>

definition ok_env :: connect_env where
  "ok_env =
     \<lparr>token_response = Gives session_response, user_media = Gives True,
      audio_analysis = AnalysisReady False, offer = Gives (Some (JStr (js ''v=0''))),
      local_description = Gives (), sdp_response = Gives sdp_answer,
      remote_description = Gives ()\<rparr>"

definition fresh :: client where
  "fresh = new_client (Some hero) sample_settings True True"

text \<open>
  The client after \<open>connect\<close> has succeeded and the data channel has opened: the
  narrator is active and its session configuration has been sent.
\<close>

definition connected_dm :: client where
  "connected_dm =
     fresh\<lparr>peerConnection := Some 1, dataChannel := Some 6, audioElement := Some 2,
           mediaStream := Some 3, isConnected := True, audioContext := Some 4,
           analyser := Some 5, dataArray := Some (replicate 128 0),
           readyState := (\<lambda>c. Closed)(6 := Open),
           connectionState := (\<lambda>p. CsClosed)(1 := CsNew),
           paused := (\<lambda>a. True)(2 := True),
           suspended := (\<lambda>x. False)(4 := False),
           has_audio_track := (\<lambda>m. False)(3 := True),
           track_enabled := (\<lambda>m. False)(3 := False),
           next_handle := 7,
           effects :=
             [FetchSession (js ''sk-test'') (js ''gpt-4o-mini-realtime-preview-2024-12-17'')
                (js ''verse''),
              NewPeerConnection 1, NewAudioElement 2, AddTrack 1 3, NewDataChannel 1 6,
              SetLocalDescription 1,
              FetchSdp (js ''gpt-4o-mini-realtime-preview-2024-12-17'') (JStr (js ''ek_1''))
                (Some (JStr (js ''v=0''))),
              SetRemoteDescription 1, OnNPCChange (JStr (js ''dm'')),
              DataChannelSend 6 (Session_update (session_for (JStr (js ''dm'')) fresh))]\<rparr>"

text \<open>Messages of the provider, as text and as parsed.\<close>

definition created_raw :: jsstring where
  \<open>created_raw = js ''{"type":"response.created","response":{"id":"resp_1"}}''\<close>

definition created_data :: json where
  "created_data =
     JObj [(js ''type'', JStr (js ''response.created'')),
           (js ''response'', JObj [(js ''id'', JStr (js ''resp_1''))])]"

definition delta_raw :: jsstring where
  \<open>delta_raw = js ''{"type":"response.audio_transcript.delta","delta":"Elara smiles."}''\<close>

definition delta_data :: json where
  "delta_data =
     JObj [(js ''type'', JStr (js ''response.audio_transcript.delta'')),
           (js ''delta'', JStr (js ''Elara smiles.''))]"

definition done_raw :: jsstring where
  \<open>done_raw = js ''{"type":"response.audio_transcript.done"}''\<close>

definition done_data :: json where
  "done_data = JObj [(js ''type'', JStr (js ''response.audio_transcript.done''))]"

definition route_args_raw :: "jsstring \<Rightarrow> jsstring" where
  \<open>route_args_raw n = js ''{"npc_name":"'' @ n @ js ''"}''\<close>

definition route_raw :: "jsstring \<Rightarrow> jsstring" where
  \<open>route_raw n =
     js ''{"type":"response.done","response":{"output":[{"type":"function_call",'' @
     js ''"name":"route_to_npc","call_id":"call_1","arguments":"{'' @ [0x5C] @
     js ''"npc_name'' @ [0x5C] @ js ''":'' @ [0x5C] @ js ''"'' @ n @ [0x5C] @ js ''"}"}]}}''\<close>

definition route_item :: "jsstring \<Rightarrow> json" where
  "route_item n =
     JObj [(js ''type'', JStr (js ''function_call'')),
           (js ''name'', JStr (js ''route_to_npc'')),
           (js ''call_id'', JStr (js ''call_1'')),
           (js ''arguments'', JStr (route_args_raw n))]"

definition route_data :: "jsstring \<Rightarrow> json" where
  "route_data n =
     JObj [(js ''type'', JStr (js ''response.done'')),
           (js ''response'', JObj [(js ''output'', JArr [route_item n])])]"

definition error_raw :: "jsstring \<Rightarrow> jsstring" where
  \<open>error_raw m = js ''{"type":"error","error":{"message":"'' @ m @ js ''"}}''\<close>

definition error_data :: "jsstring \<Rightarrow> json" where
  "error_data m =
     JObj [(js ''type'', JStr (js ''error'')), (js ''error'', JObj [(js ''message'', JStr m)])]"

text \<open>\<open>JSON.parse\<close> on these texts; any other argument is taken as malformed.\<close>

definition sample_parse :: parser where
  "sample_parse v =
     (case v of
        Some (JStr raw) \<Rightarrow>
          if raw = done_raw then Inr done_data
          else if raw = created_raw then Inr created_data
          else if raw = delta_raw then Inr delta_data
          else if raw = route_args_raw (js ''elara'')
            then Inr (JObj [(js ''npc_name'', JStr (js ''elara''))])
          else if raw = route_args_raw (js ''dm'')
            then Inr (JObj [(js ''npc_name'', JStr (js ''dm''))])
          else if raw = route_raw (js ''elara'') then Inr (route_data (js ''elara''))
          else if raw = route_raw (js ''dm'') then Inr (route_data (js ''dm''))
          else if raw = error_raw [] then Inr (error_data [])
          else if raw = error_raw benign_cancellation then Inr (error_data benign_cancellation)
          else if raw = error_raw (js ''Rate limit reached'')
            then Inr (error_data (js ''Rate limit reached''))
          else Inl SyntaxError
      | _ \<Rightarrow> Inl SyntaxError)"

text \<open>
  The connected client with a response in flight; the same after the data channel
  has closed; and with a transcript that is only a space.
\<close>

definition mid_response :: client where
  "mid_response =
     run sample_parse
       [ChannelMessage 6 (StringData created_raw), ChannelMessage 6 (StringData delta_raw)]
       connected_dm"

definition stale_generating :: client where
  "stale_generating =
     run sample_parse [ChannelMessage 6 (StringData created_raw), ChannelCloses 6] connected_dm"

definition blank_response :: client where
  "blank_response =
     connected_dm\<lparr>currentResponseId := Some (JStr (js ''resp_1'')),
                  currentResponseText := js '' '', isGeneratingResponse := True\<rparr>"


section \<open>Auxiliary facts\<close>

subsection \<open>Strings and parsed messages\<close>

lemma unat_of_char_16: "unat (of_char c :: 16 word) = (of_char c :: nat)"
proof -
  have "(of_char c :: 16 word) = of_nat (of_char c)" by (simp add: of_nat_of_char)
  then have "unat (of_char c :: 16 word) = (of_char c :: nat) mod 2 ^ 16"
    by (simp add: unat_of_nat)
  moreover have "(of_char c :: nat) < 256" by simp
  ultimately show ?thesis by simp
qed

lemma inj_of_char_16: "inj (of_char :: char \<Rightarrow> 16 word)"
proof (rule injI)
  fix c d :: char
  assume "(of_char c :: 16 word) = of_char d"
  then have "unat (of_char c :: 16 word) = unat (of_char d :: 16 word)" by simp
  then have "(of_char c :: nat) = of_char d" by (simp only: unat_of_char_16)
  then show "c = d" by simp
qed

lemma js_eq_iff [simp]: "js a = js b \<longleftrightarrow> a = b"
  unfolding js_def using inj_of_char_16 by simp

lemma js_Nil_iff [simp]: "js a = [] \<longleftrightarrow> a = []" "[] = js a \<longleftrightarrow> a = []"
  by (auto simp add: js_def)

lemma trim_empty_set: "trim s = [] \<longleftrightarrow> (\<forall>c\<in>set s. js_whitespace c)"
proof -
  have "trim s = [] \<longleftrightarrow> (\<forall>c\<in>set (dropWhile js_whitespace s). js_whitespace c)"
    by (simp add: trim_def)
  also have "\<dots> \<longleftrightarrow> dropWhile js_whitespace s = []"
  proof
    assume a: "\<forall>c\<in>set (dropWhile js_whitespace s). js_whitespace c"
    show "dropWhile js_whitespace s = []"
    proof (rule ccontr)
      assume n: "dropWhile js_whitespace s \<noteq> []"
      then have "\<not> js_whitespace (hd (dropWhile js_whitespace s))" by (rule hd_dropWhile)
      moreover have "hd (dropWhile js_whitespace s) \<in> set (dropWhile js_whitespace s)"
        using n by simp
      ultimately show False using a by blast
    qed
  qed (auto dest: set_dropWhileD)
  also have "\<dots> \<longleftrightarrow> (\<forall>c\<in>set s. js_whitespace c)"
    by simp
  finally show ?thesis .
qed

lemma trim_empty_iff: "trim s = [] \<longleftrightarrow> list_all js_whitespace s"
  by (simp add: trim_empty_set list_all_iff)

lemma str_includes_iff: "str_includes t p \<longleftrightarrow> (\<exists>a b. t = a @ p @ b)"
proof (induction t)
  case Nil
  show ?case by auto
next
  case (Cons c cs)
  show ?case
  proof
    assume "str_includes (c # cs) p"
    then consider "prefix p (c # cs)" | "str_includes cs p" by auto
    then show "\<exists>a b. c # cs = a @ p @ b"
    proof cases
      case 1
      then obtain b where "c # cs = p @ b" by (auto simp add: prefix_def)
      then have "c # cs = [] @ p @ b" by simp
      then show ?thesis by blast
    next
      case 2
      with Cons obtain a b where "cs = a @ p @ b" by auto
      then have "c # cs = (c # a) @ p @ b" by simp
      then show ?thesis by blast
    qed
  next
    assume "\<exists>a b. c # cs = a @ p @ b"
    then obtain a b where ab: "c # cs = a @ p @ b" by blast
    show "str_includes (c # cs) p"
    proof (cases a)
      case Nil
      with ab have "prefix p (c # cs)" by (simp add: prefix_def)
      then show ?thesis by simp
    next
      case (Cons x xs)
      with ab have "cs = xs @ p @ b" by simp
      with Cons.IH have "str_includes cs p" by blast
      then show ?thesis by simp
    qed
  qed
qed

lemma parses_as_obj:
  assumes "parses_as P raw data ty"
  obtains kvs where "data = JObj kvs" "map_of kvs (js ''type'') = Some (JStr ty)"
  using assms by (cases data) (auto simp add: parses_as_def)

lemma dispatch_transcript_done:
  assumes "parses_as P raw data (js ''response.audio_transcript.done'')"
  shows "handleDataChannelMessage P (StringData raw) s = on_transcript_done s"
proof -
  from assms obtain kvs where "data = JObj kvs"
    "map_of kvs (js ''type'') = Some (JStr (js ''response.audio_transcript.done''))"
    by (rule parses_as_obj)
  with assms show ?thesis
    by (simp add: parses_as_def handleDataChannelMessage_def)
qed


subsection \<open>The routing call\<close>

lemma call_switchNPCInSession: "call_method ''switchNPCInSession'' n c s = Inl TypeError"
  by (simp add: call_method_def RealtimeClient_methods_def)

lemma route_call_unchanged: "route_call P output s = s"
  by (simp add: route_call_def call_switchNPCInSession split: sum.splits option.splits)

lemma scan_outputs_unchanged: "scan_outputs P outputs s = s"
  by (induction outputs) (simp_all add: route_call_unchanged split: sum.splits)

lemma on_response_done_eq:
  "on_response_done P data s = onAudioLevel (Num 0) (s\<lparr>isGeneratingResponse := False\<rparr>)"
  by (simp add: on_response_done_def scan_outputs_unchanged Let_def split: sum.splits option.splits)


subsection \<open>The active persona is written at channel open only\<close>

lemma persona_emit [simp]: "currentActiveNPC (emit e s) = currentActiveNPC s"
  by (simp add: emit_def)

lemma persona_onAudioLevel [simp]: "currentActiveNPC (onAudioLevel x s) = currentActiveNPC s"
  by (simp add: onAudioLevel_def)

lemma persona_push [simp]: "currentActiveNPC (push_user_transcript t s) = currentActiveNPC s"
  by (simp add: push_user_transcript_def)

lemma persona_on_transcription_completed [simp]:
  "currentActiveNPC (on_transcription_completed data s) = currentActiveNPC s"
  by (simp add: on_transcription_completed_def Let_def split: sum.splits option.splits json.splits)

lemma persona_on_item_created [simp]:
  "currentActiveNPC (on_item_created data s) = currentActiveNPC s"
  by (simp add: on_item_created_def Let_def split: sum.splits option.splits json.splits)

lemma persona_on_response_created [simp]:
  "currentActiveNPC (on_response_created data s) = currentActiveNPC s"
  by (simp add: on_response_created_def Let_def split: sum.splits option.splits)

lemma persona_on_transcript_delta [simp]:
  "currentActiveNPC (on_transcript_delta data s) = currentActiveNPC s"
  by (simp add: on_transcript_delta_def split: sum.splits option.splits json.splits)

lemma persona_on_transcript_done [simp]:
  "currentActiveNPC (on_transcript_done s) = currentActiveNPC s"
  by (simp add: on_transcript_done_def Let_def)

lemma persona_on_response_done [simp]:
  "currentActiveNPC (on_response_done P data s) = currentActiveNPC s"
  by (simp add: on_response_done_eq)

lemma persona_on_error [simp]: "currentActiveNPC (on_error data s) = currentActiveNPC s"
  by (simp add: on_error_def Let_def split: sum.splits option.splits json.splits)

lemma persona_handle [simp]:
  "currentActiveNPC (handleDataChannelMessage P d s) = currentActiveNPC s"
  by (simp add: handleDataChannelMessage_def
      split: message_data.splits sum.splits option.splits json.splits)

lemma persona_sendEvent [simp]: "currentActiveNPC (sendEvent e s) = currentActiveNPC s"
  by (simp add: sendEvent_def split: option.splits)

lemma persona_updateSessionInstructions [simp]:
  "currentActiveNPC (updateSessionInstructions n s) = currentActiveNPC s"
  by (simp add: updateSessionInstructions_def split: option.splits)

lemma persona_updateLevel [simp]: "currentActiveNPC (updateLevel s) = currentActiveNPC s"
  by (simp add: updateLevel_def Let_def split: option.splits)

lemma persona_startAudioLevelMonitoring [simp]:
  "currentActiveNPC (startAudioLevelMonitoring s) = currentActiveNPC s"
  by (simp add: startAudioLevelMonitoring_def)

lemma persona_stopAudioLevelMonitoring [simp]:
  "currentActiveNPC (stopAudioLevelMonitoring s) = currentActiveNPC s"
  by (simp add: stopAudioLevelMonitoring_def split: option.splits)

lemma persona_cancelResponse [simp]: "currentActiveNPC (cancelResponse s) = currentActiveNPC s"
  by (simp add: cancelResponse_def)

lemma persona_resume_context [simp]: "currentActiveNPC (resume_context s) = currentActiveNPC s"
  by (simp add: resume_context_def split: option.splits)

lemma persona_stop_playback [simp]: "currentActiveNPC (stop_playback s) = currentActiveNPC s"
  by (simp add: stop_playback_def split: option.splits)

lemma persona_set_track_enabled [simp]:
  "currentActiveNPC (set_track_enabled m b s) = currentActiveNPC s"
  by (simp add: set_track_enabled_def)

lemma persona_startListening [simp]:
  "currentActiveNPC (snd (startListening s)) = currentActiveNPC s"
  by (simp add: startListening_def Let_def split: option.splits)

lemma persona_stopListening [simp]: "currentActiveNPC (stopListening s) = currentActiveNPC s"
  by (simp add: stopListening_def Let_def split: option.splits)

lemma persona_disconnect [simp]: "currentActiveNPC (disconnect s) = currentActiveNPC s"
  by (simp add: disconnect_def Let_def split: option.splits)

lemma persona_connect_catch [simp]: "currentActiveNPC (connect_catch e s) = currentActiveNPC s"
  by (simp add: connect_catch_def Let_def)

lemma persona_connect_signaling [simp]:
  "currentActiveNPC (connect_signaling env k s) = currentActiveNPC s"
  by (simp add: connect_signaling_def Let_def split: option.splits attempt.splits)

lemma persona_setupAudioAnalysis [simp]:
  "currentActiveNPC (setupAudioAnalysis out s) = currentActiveNPC s"
  by (simp add: setupAudioAnalysis_def Let_def split: option.splits analysis_outcome.splits)

lemma persona_connect_media [simp]:
  "currentActiveNPC (connect_media env k s) = currentActiveNPC s"
  by (simp add: connect_media_def Let_def split: attempt.splits)

lemma persona_connect [simp]: "currentActiveNPC (connect env s) = currentActiveNPC s"
  by (simp add: connect_def Let_def split: attempt.splits sum.splits option.splits)

lemma persona_initializeSession:
  "currentActiveNPC (initializeSession s) = JStr (js ''dm'') \<or>
   currentActiveNPC (initializeSession s) = currentActiveNPC s"
  by (simp add: initializeSession_def onNPCChange_def split: option.splits)

subsection \<open>Audio levels and the level array\<close>

lemma levels_append [simp]: "levels (xs @ ys) = levels xs @ levels ys"
proof (induction xs)
  case Nil
  show ?case by simp
next
  case (Cons e xs)
  then show ?case by (cases e) simp_all
qed

lemma sends_append [simp]: "sends (xs @ ys) = sends xs @ sends ys"
proof (induction xs)
  case Nil
  show ?case by simp
next
  case (Cons e xs)
  then show ?case by (cases e) simp_all
qed

lemma levels_emit [simp]: "levels (effects (emit e s)) = levels (effects s) @ levels [e]"
  by (simp add: emit_def)

lemma levels_onAudioLevel [simp]:
  "levels (effects (onAudioLevel x s)) = levels (effects s) @ (if has_onAudioLevel s then [x] else [])"
  by (simp add: onAudioLevel_def)

lemma levels_onNPCChange [simp]: "levels (effects (onNPCChange n s)) = levels (effects s)"
  by (simp add: onNPCChange_def)

lemma levels_sendEvent [simp]: "levels (effects (sendEvent e s)) = levels (effects s)"
  by (simp add: sendEvent_def split: option.splits)

lemma levels_updateSessionInstructions [simp]:
  "levels (effects (updateSessionInstructions n s)) = levels (effects s)"
  by (simp add: updateSessionInstructions_def split: option.splits)

lemma levels_initializeSession [simp]:
  "levels (effects (initializeSession s)) = levels (effects s)"
  by (simp add: initializeSession_def split: option.splits)

lemma levels_push [simp]: "levels (effects (push_user_transcript t s)) = levels (effects s)"
  by (simp add: push_user_transcript_def)

lemma levels_on_transcription_completed [simp]:
  "levels (effects (on_transcription_completed data s)) = levels (effects s)"
  by (simp add: on_transcription_completed_def Let_def split: sum.splits option.splits json.splits)

lemma levels_on_item_created [simp]:
  "levels (effects (on_item_created data s)) = levels (effects s)"
  by (simp add: on_item_created_def Let_def split: sum.splits option.splits json.splits)

lemma levels_on_transcript_delta [simp]:
  "levels (effects (on_transcript_delta data s)) = levels (effects s)"
  by (simp add: on_transcript_delta_def split: sum.splits option.splits json.splits)

lemma levels_on_error [simp]: "levels (effects (on_error data s)) = levels (effects s)"
  by (simp add: on_error_def Let_def split: sum.splits option.splits json.splits)

lemma get_prop_not_null: "v \<noteq> JNull \<Longrightarrow> get_prop (Some v) k = Inr (opt_prop (Some v) k)"
  by (cases v) simp_all

lemma levels_on_response_created:
  "data \<noteq> JNull \<Longrightarrow> levels (effects (on_response_created data s))
     = levels (effects s) @ (if has_onAudioLevel s then [Num (7 / 10)] else [])"
  by (simp add: on_response_created_def get_prop_not_null Let_def onAudioLevel_def emit_def
      split: option.splits)

lemma range_on_response_created [simp]:
  "list_all in_unit_interval (levels (effects (on_response_created data s)))
     = list_all in_unit_interval (levels (effects s))"
  by (simp add: on_response_created_def Let_def split: sum.splits option.splits)

lemma levels_on_transcript_done [simp]:
  "levels (effects (on_transcript_done s))
     = levels (effects s) @ (if has_onAudioLevel s then [Num 0] else [])"
  by (simp add: on_transcript_done_def Let_def onAudioLevel_def emit_def)

lemma levels_on_response_done [simp]:
  "levels (effects (on_response_done P data s))
     = levels (effects s) @ (if has_onAudioLevel s then [Num 0] else [])"
  by (simp add: on_response_done_eq)


lemma range_handle [simp]:
  "list_all in_unit_interval (levels (effects (handleDataChannelMessage P d s)))
     = list_all in_unit_interval (levels (effects s))"
  by (simp add: handleDataChannelMessage_def
      split: message_data.splits sum.splits option.splits json.splits)

lemma length_getByteFrequencyData [simp]:
  "length (getByteFrequencyData freq arr) = length arr"
  by (simp add: getByteFrequencyData_def)

lemma normalizedLevel_in_range: "arr \<noteq> [] \<Longrightarrow> in_unit_interval (normalizedLevel arr)"
  by (simp add: normalizedLevel_def)


lemma array_emit [simp]: "dataArray (emit e s) = dataArray s"
  by (simp add: emit_def)

lemma array_onAudioLevel [simp]: "dataArray (onAudioLevel x s) = dataArray s"
  by (simp add: onAudioLevel_def)

lemma array_onNPCChange [simp]: "dataArray (onNPCChange n s) = dataArray s"
  by (simp add: onNPCChange_def)

lemma array_sendEvent [simp]: "dataArray (sendEvent e s) = dataArray s"
  by (simp add: sendEvent_def split: option.splits)

lemma array_updateSessionInstructions [simp]:
  "dataArray (updateSessionInstructions n s) = dataArray s"
  by (simp add: updateSessionInstructions_def split: option.splits)

lemma array_initializeSession [simp]: "dataArray (initializeSession s) = dataArray s"
  by (simp add: initializeSession_def split: option.splits)

lemma array_push [simp]: "dataArray (push_user_transcript t s) = dataArray s"
  by (simp add: push_user_transcript_def)

lemma array_on_transcription_completed [simp]:
  "dataArray (on_transcription_completed data s) = dataArray s"
  by (simp add: on_transcription_completed_def Let_def split: sum.splits option.splits json.splits)

lemma array_on_item_created [simp]: "dataArray (on_item_created data s) = dataArray s"
  by (simp add: on_item_created_def Let_def split: sum.splits option.splits json.splits)

lemma array_on_response_created [simp]: "dataArray (on_response_created data s) = dataArray s"
  by (simp add: on_response_created_def Let_def split: sum.splits option.splits)

lemma array_on_transcript_delta [simp]: "dataArray (on_transcript_delta data s) = dataArray s"
  by (simp add: on_transcript_delta_def split: sum.splits option.splits json.splits)

lemma array_on_transcript_done [simp]: "dataArray (on_transcript_done s) = dataArray s"
  by (simp add: on_transcript_done_def Let_def)

lemma array_on_response_done [simp]: "dataArray (on_response_done P data s) = dataArray s"
  by (simp add: on_response_done_eq)

lemma array_on_error [simp]: "dataArray (on_error data s) = dataArray s"
  by (simp add: on_error_def Let_def split: sum.splits option.splits json.splits)

lemma array_handle [simp]: "dataArray (handleDataChannelMessage P d s) = dataArray s"
  by (simp add: handleDataChannelMessage_def
      split: message_data.splits sum.splits option.splits json.splits)

lemma array_cancelResponse [simp]: "dataArray (cancelResponse s) = dataArray s"
  by (simp add: cancelResponse_def)

lemma array_resume_context [simp]: "dataArray (resume_context s) = dataArray s"
  by (simp add: resume_context_def split: option.splits)

lemma array_stop_playback [simp]: "dataArray (stop_playback s) = dataArray s"
  by (simp add: stop_playback_def split: option.splits)

lemma array_set_track_enabled [simp]: "dataArray (set_track_enabled m b s) = dataArray s"
  by (simp add: set_track_enabled_def)

lemma array_stopAudioLevelMonitoring [simp]:
  "dataArray (stopAudioLevelMonitoring s) = dataArray s"
  by (simp add: stopAudioLevelMonitoring_def split: option.splits)

lemma array_updateLevel [simp]:
  "dataArray s \<noteq> Some [] \<Longrightarrow> dataArray (updateLevel s) \<noteq> Some []"
  by (auto simp add: updateLevel_def Let_def split: option.splits dest: arg_cong[where f=length])

lemma array_startAudioLevelMonitoring [simp]:
  "dataArray s \<noteq> Some [] \<Longrightarrow> dataArray (startAudioLevelMonitoring s) \<noteq> Some []"
  by (simp add: startAudioLevelMonitoring_def)

lemma array_startListening [simp]:
  "dataArray s \<noteq> Some [] \<Longrightarrow> dataArray (snd (startListening s)) \<noteq> Some []"
  by (simp add: startListening_def Let_def split: option.splits)

lemma array_stopListening [simp]: "dataArray (stopListening s) = dataArray s"
  by (simp add: stopListening_def Let_def split: option.splits)

lemma array_disconnect [simp]: "dataArray (disconnect s) = dataArray s"
  by (simp add: disconnect_def Let_def split: option.splits)

lemma array_connect_catch [simp]: "dataArray (connect_catch e s) = dataArray s"
  by (simp add: connect_catch_def Let_def)

lemma array_connect_signaling [simp]: "dataArray (connect_signaling env k s) = dataArray s"
  by (simp add: connect_signaling_def Let_def split: option.splits attempt.splits)

lemma array_setupAudioAnalysis [simp]:
  "dataArray s \<noteq> Some [] \<Longrightarrow> dataArray (setupAudioAnalysis out s) \<noteq> Some []"
  by (simp add: setupAudioAnalysis_def Let_def split: option.splits analysis_outcome.splits)

lemma array_connect_media [simp]:
  "dataArray s \<noteq> Some [] \<Longrightarrow> dataArray (connect_media env k s) \<noteq> Some []"
  by (simp add: connect_media_def Let_def split: attempt.splits)

lemma array_connect [simp]:
  "dataArray s \<noteq> Some [] \<Longrightarrow> dataArray (connect env s) \<noteq> Some []"
  by (simp add: connect_def Let_def split: attempt.splits sum.splits option.splits)

lemma array_step:
  "dataArray s \<noteq> Some [] \<Longrightarrow> dataArray (step P a s) \<noteq> Some []"
  by (cases a)
    (simp_all add: step_def on_channel_open_def on_channel_error_def ontrack_def
      onconnectionstatechange_def on_timeout_def split: option.splits)

lemma reachable_array: "reachable P s \<Longrightarrow> dataArray s \<noteq> Some []"
  by (induction rule: reachable.induct) (simp_all add: new_client_def array_step)

lemma levels_resume_context [simp]: "levels (effects (resume_context s)) = levels (effects s)"
  by (simp add: resume_context_def split: option.splits)

lemma levels_stop_playback [simp]: "levels (effects (stop_playback s)) = levels (effects s)"
  by (simp add: stop_playback_def split: option.splits)

lemma levels_set_track_enabled [simp]:
  "levels (effects (set_track_enabled m b s)) = levels (effects s)"
  by (simp add: set_track_enabled_def)

lemma range_cancelResponse [simp]:
  "list_all in_unit_interval (levels (effects (cancelResponse s)))
     = list_all in_unit_interval (levels (effects s))"
  by (simp add: cancelResponse_def)

lemma range_stopAudioLevelMonitoring [simp]:
  "list_all in_unit_interval (levels (effects (stopAudioLevelMonitoring s)))
     = list_all in_unit_interval (levels (effects s))"
  by (simp add: stopAudioLevelMonitoring_def split: option.splits)

lemma getByteFrequencyData_Nil [simp]: "getByteFrequencyData freq arr = [] \<longleftrightarrow> arr = []"
  using length_getByteFrequencyData[of freq arr] by (metis length_0_conv)

lemma range_updateLevel [simp]:
  "dataArray s \<noteq> Some [] \<Longrightarrow>
   list_all in_unit_interval (levels (effects (updateLevel s)))
     = list_all in_unit_interval (levels (effects s))"
  by (auto simp add: updateLevel_def Let_def normalizedLevel_in_range split: option.splits)

lemma range_startAudioLevelMonitoring [simp]:
  "dataArray s \<noteq> Some [] \<Longrightarrow>
   list_all in_unit_interval (levels (effects (startAudioLevelMonitoring s)))
     = list_all in_unit_interval (levels (effects s))"
  by (simp add: startAudioLevelMonitoring_def)

lemma range_startListening [simp]:
  "dataArray s \<noteq> Some [] \<Longrightarrow>
   list_all in_unit_interval (levels (effects (snd (startListening s))))
     = list_all in_unit_interval (levels (effects s))"
  by (simp add: startListening_def Let_def split: option.splits)

lemma range_stopListening [simp]:
  "list_all in_unit_interval (levels (effects (stopListening s)))
     = list_all in_unit_interval (levels (effects s))"
  by (simp add: stopListening_def Let_def split: option.splits)

lemma range_disconnect [simp]:
  "list_all in_unit_interval (levels (effects (disconnect s)))
     = list_all in_unit_interval (levels (effects s))"
  by (simp add: disconnect_def Let_def split: option.splits)

lemma levels_connect_catch [simp]: "levels (effects (connect_catch e s)) = levels (effects s)"
  by (simp add: connect_catch_def Let_def)

lemma levels_connect_signaling [simp]:
  "levels (effects (connect_signaling env k s)) = levels (effects s)"
  by (simp add: connect_signaling_def Let_def split: option.splits attempt.splits)

lemma levels_setupAudioAnalysis [simp]:
  "levels (effects (setupAudioAnalysis out s)) = levels (effects s)"
  by (simp add: setupAudioAnalysis_def Let_def split: option.splits analysis_outcome.splits)

lemma levels_connect_media [simp]:
  "levels (effects (connect_media env k s)) = levels (effects s)"
  by (simp add: connect_media_def Let_def split: attempt.splits)

lemma levels_connect [simp]: "levels (effects (connect env s)) = levels (effects s)"
  by (simp add: connect_def Let_def split: attempt.splits sum.splits option.splits)

lemma range_step:
  "dataArray s \<noteq> Some [] \<Longrightarrow>
   list_all in_unit_interval (levels (effects (step P a s)))
     = list_all in_unit_interval (levels (effects s))"
  by (cases a)
    (simp_all add: step_def on_channel_open_def on_channel_error_def ontrack_def
      onconnectionstatechange_def on_timeout_def split: option.splits)

lemma reachable_levels:
  "reachable P s \<Longrightarrow> list_all in_unit_interval (levels (effects s))"
proof (induction rule: reachable.induct)
  case (reachable_new ch st audioLevelCb npcChangeCb)
  show ?case by (simp add: new_client_def)
next
  case (reachable_step s a)
  then show ?case by (simp add: range_step reachable_array)
qed

lemma persona_step:
  "currentActiveNPC s = JStr (js ''dm'') \<Longrightarrow> currentActiveNPC (step P a s) = JStr (js ''dm'')"
  by (cases a)
    (simp_all add: step_def on_channel_open_def initializeSession_def onNPCChange_def
      on_channel_error_def ontrack_def onconnectionstatechange_def on_timeout_def
      split: option.splits)

lemma reachable_persona: "reachable P s \<Longrightarrow> currentActiveNPC s = JStr (js ''dm'')"
  by (induction rule: reachable.induct) (simp_all add: new_client_def persona_step)

lemma persona_run:
  "currentActiveNPC s = JStr (js ''dm'') \<Longrightarrow> currentActiveNPC (run P as s) = JStr (js ''dm'')"
  by (induction as arbitrary: s) (simp_all add: persona_step)

lemma reachable_run: "reachable P s \<Longrightarrow> reachable P (run P as s)"
  by (induction as arbitrary: s) (simp_all add: reachable_step)

subsection \<open>The sample values\<close>

lemma connected_dm_run: "run P [Connect ok_env, ChannelOpens 6] fresh = connected_dm"
  by (simp add: connected_dm_def fresh_def new_client_def step_def connect_def connect_media_def
      connect_signaling_def setupAudioAnalysis_def getVoiceForNPC_def emit_def ok_env_def
      session_response_def sdp_answer_def sample_settings_def on_channel_open_def
      initializeSession_def onNPCChange_def updateSessionInstructions_def sendEvent_def
      session_for_def Let_def fun_eq_iff)

lemma reachable_connected_dm: "reachable P connected_dm"
proof -
  have "reachable P fresh" unfolding fresh_def by (rule reachable_new)
  then have "reachable P (run P [Connect ok_env, ChannelOpens 6] fresh)" by (rule reachable_run)
  then show ?thesis by (simp only: connected_dm_run)
qed

lemma sample_parse_done: "parses_as sample_parse done_raw done_data (js ''response.audio_transcript.done'')"
  by (simp add: parses_as_def sample_parse_def done_raw_def done_data_def)

lemma sample_parse_created: "parses_as sample_parse created_raw created_data (js ''response.created'')"
  by (simp add: parses_as_def sample_parse_def done_raw_def created_raw_def created_data_def)

lemma sample_parse_delta:
  "parses_as sample_parse delta_raw delta_data (js ''response.audio_transcript.delta'')"
  by (simp add: parses_as_def sample_parse_def done_raw_def created_raw_def delta_raw_def
      delta_data_def)

lemma connected_dm_fields:
  "dataChannel connected_dm = Some 6" "readyState connected_dm 6 = Open"
  "isConnected connected_dm" "\<not> isListening connected_dm"
  "\<not> isGeneratingResponse connected_dm"
  "mediaStream connected_dm = Some 3" "audioElement connected_dm = Some 2"
  "has_onAudioLevel connected_dm" "has_onNPCChange connected_dm"
  "currentActiveNPC connected_dm = JStr (js ''dm'')"
  "paused connected_dm 2" "play_allowed connected_dm"
  "currentResponseText connected_dm = []"
  by (simp_all add: connected_dm_def fresh_def new_client_def)

section \<open>Completion of a blank transcript\<close>

text \<open>
  C10. When a \<open>response.audio_transcript.done\<close> event arrives while the accumulated
  response text is empty or consists of whitespace only, no \<open>onMessage\<close> call is made
  (the only callback is the audio level 0) and nothing is appended to the conversation
  history, yet the in-flight response is cleared: text and response id are reset and
  the generating flag is false.
\<close>

theorem blank_transcript_done_clears_without_turn:
  assumes "parses_as JSON_parse raw data (js ''response.audio_transcript.done'')"
    and "list_all js_whitespace (currentResponseText s)"
  shows "effects (handleDataChannelMessage JSON_parse (StringData raw) s)
           = effects s @ (if has_onAudioLevel s then [OnAudioLevel (Num 0)] else [])
         \<and> conversationHistory (handleDataChannelMessage JSON_parse (StringData raw) s)
             = conversationHistory s
         \<and> response_cleared (handleDataChannelMessage JSON_parse (StringData raw) s)"
  using assms(2) unfolding dispatch_transcript_done[OF assms(1)]
  by (simp add: on_transcript_done_def trim_empty_iff onAudioLevel_def emit_def
      response_cleared_def Let_def)

theorem blank_transcript_done_clears_without_turn_witness:
  "parses_as sample_parse done_raw done_data (js ''response.audio_transcript.done'')
   \<and> list_all js_whitespace (currentResponseText blank_response)
   \<and> isGeneratingResponse blank_response
   \<and> effects (handleDataChannelMessage sample_parse (StringData done_raw) blank_response)
       = effects blank_response @ [OnAudioLevel (Num 0)]
   \<and> conversationHistory (handleDataChannelMessage sample_parse (StringData done_raw) blank_response)
       = []
   \<and> response_cleared (handleDataChannelMessage sample_parse (StringData done_raw) blank_response)"
proof -
  have ws: "list_all js_whitespace (currentResponseText blank_response)"
    by (simp add: blank_response_def js_def js_whitespace_def)
  have more: "has_onAudioLevel blank_response" "conversationHistory blank_response = []"
    "isGeneratingResponse blank_response"
    by (simp_all add: blank_response_def connected_dm_def fresh_def new_client_def)
  show ?thesis
    using blank_transcript_done_clears_without_turn [OF sample_parse_done ws] ws more
      sample_parse_done
    by simp
qed

section \<open>The routing tool in the session configuration\<close>

text \<open>
  C3. With the data channel open, \<open>updateSessionInstructions\<close> sends one
  \<open>session.update\<close> whose tool list contains the \<open>route_to_npc\<close> declaration if and
  only if the persona is the narrator \<open>dm\<close>; for every other persona the tool list is
  empty.
\<close>

theorem route_tool_iff_narrator:
  assumes "dataChannel s = Some c" and "readyState s c = Open"
  shows "effects (updateSessionInstructions npcType s)
           = effects s @ [DataChannelSend c (Session_update (session_for npcType s))]
         \<and> (ROUTE_TO_NPC_FUNCTION \<in> set (tools (session_for npcType s))
              \<longleftrightarrow> npcType = JStr (js ''dm''))
         \<and> (npcType \<noteq> JStr (js ''dm'') \<longrightarrow> tools (session_for npcType s) = [])"
  using assms
  by (simp add: updateSessionInstructions_def sendEvent_def emit_def session_for_def)

theorem route_tool_iff_narrator_witness:
  "dataChannel connected_dm = Some 6 \<and> readyState connected_dm 6 = Open
   \<and> effects (updateSessionInstructions (JStr (js ''elara'')) connected_dm)
       = effects connected_dm
           @ [DataChannelSend 6 (Session_update (session_for (JStr (js ''elara'')) connected_dm))]
   \<and> tools (session_for (JStr (js ''elara'')) connected_dm) = []
   \<and> tools (session_for (JStr (js ''dm'')) connected_dm) = [ROUTE_TO_NPC_FUNCTION]"
proof -
  have open6: "dataChannel connected_dm = Some 6" "readyState connected_dm 6 = Open"
    by (simp_all add: connected_dm_fields)
  have dm: "tools (session_for (JStr (js ''dm'')) connected_dm) = [ROUTE_TO_NPC_FUNCTION]"
    by (simp add: session_for_def)
  show ?thesis
    using route_tool_iff_narrator [OF open6, of "JStr (js ''elara'')"] open6 dm
    by simp
qed

section \<open>Routing calls in \<open>response.done\<close>\<close>

lemma dispatch_response_created:
  assumes "parses_as P raw data (js ''response.created'')"
  shows "handleDataChannelMessage P (StringData raw) s = on_response_created data s"
proof -
  from assms obtain kvs where "data = JObj kvs"
    "map_of kvs (js ''type'') = Some (JStr (js ''response.created''))"
    by (rule parses_as_obj)
  with assms show ?thesis
    by (simp add: parses_as_def handleDataChannelMessage_def)
qed

lemma dispatch_response_done:
  assumes "parses_as P raw data (js ''response.done'')"
  shows "handleDataChannelMessage P (StringData raw) s = on_response_done P data s"
proof -
  from assms obtain kvs where "data = JObj kvs"
    "map_of kvs (js ''type'') = Some (JStr (js ''response.done''))"
    by (rule parses_as_obj)
  with assms show ?thesis
    by (simp add: parses_as_def handleDataChannelMessage_def)
qed

lemma dispatch_error:
  assumes "parses_as P raw data (js ''error'')"
  shows "handleDataChannelMessage P (StringData raw) s = on_error data s"
proof -
  from assms obtain kvs where "data = JObj kvs"
    "map_of kvs (js ''type'') = Some (JStr (js ''error''))"
    by (rule parses_as_obj)
  with assms show ?thesis
    by (simp add: parses_as_def handleDataChannelMessage_def)
qed

lemma parses_as_not_null: "parses_as P raw data ty \<Longrightarrow> data \<noteq> JNull"
  by (auto simp add: parses_as_def)

lemma opt_prop_SomeD:
  assumes "opt_prop v k = Some x"
  obtains kvs where "v = Some (JObj kvs)" "map_of kvs k = Some x"
proof (cases v)
  case None
  with assms show ?thesis by simp
next
  case (Some j)
  with assms that show ?thesis by (cases j) simp_all
qed

lemma route_call_active_persona:
  "names_active_persona P s item \<Longrightarrow> route_call P item s = s"
  by (cases "P (opt_prop (Some item) (js ''arguments''))")
    (auto simp add: names_active_persona_def route_call_def
      split: option.splits elim!: opt_prop_SomeD)

lemma names_active_persona_cong:
  "currentActiveNPC s' = currentActiveNPC s \<Longrightarrow>
   names_active_persona P s' output = names_active_persona P s output"
  by (simp add: names_active_persona_def cong: sum.case_cong option.case_cong)

lemma scan_outputs_active_persona:
  "list_all (\<lambda>output. is_route_call output \<longrightarrow> names_active_persona P s output) outputs \<Longrightarrow>
   scan_outputs P outputs s = s"
proof (induction outputs)
  case Nil
  show ?case by simp
next
  case (Cons item rest)
  show ?case
  proof (cases "item = JNull")
    case True
    then show ?thesis by simp
  next
    case False
    with Cons show ?thesis
      by (simp add: get_prop_not_null is_route_call_def route_call_active_persona)
  qed
qed

lemma on_response_done_active_persona:
  assumes "data \<noteq> JNull"
    and "list_all (\<lambda>output. is_route_call output \<longrightarrow> names_active_persona P s output)
           (output_items data)"
  shows "on_response_done P data s = onAudioLevel (Num 0) (s\<lparr>isGeneratingResponse := False\<rparr>)"
proof -
  let ?s1 = "onAudioLevel (Num 0) (s\<lparr>isGeneratingResponse := False\<rparr>)"
  have same: "names_active_persona P ?s1 = names_active_persona P s"
    by (rule ext, rule names_active_persona_cong) simp
  show ?thesis
    using assms
    by (simp add: on_response_done_def get_prop_not_null output_items_def Let_def same
        scan_outputs_active_persona split: option.splits)
qed

text \<open>
  C8. When every \<open>route_to_npc\<close> function call among the output items of a
  \<open>response.done\<close> event names the currently active persona, handling the event
  invokes no persona-change callback and sends nothing (the only effect is the audio
  level 0), schedules no follow-up, and leaves the active persona unchanged.
\<close>

theorem route_to_active_persona_is_noop:
  assumes "parses_as JSON_parse raw data (js ''response.done'')"
    and "list_all (\<lambda>output. is_route_call output \<longrightarrow> names_active_persona JSON_parse s output)
           (output_items data)"
  shows "currentActiveNPC (handleDataChannelMessage JSON_parse (StringData raw) s)
           = currentActiveNPC s
         \<and> effects (handleDataChannelMessage JSON_parse (StringData raw) s)
             = effects s @ (if has_onAudioLevel s then [OnAudioLevel (Num 0)] else [])
         \<and> pending_timeouts (handleDataChannelMessage JSON_parse (StringData raw) s)
             = pending_timeouts s"
  unfolding dispatch_response_done[OF assms(1)]
    on_response_done_active_persona[OF parses_as_not_null[OF assms(1)] assms(2)]
  by (simp add: onAudioLevel_def emit_def)

lemma sample_parse_route_dm:
  "parses_as sample_parse (route_raw (js ''dm'')) (route_data (js ''dm'')) (js ''response.done'')"
  by (simp add: parses_as_def sample_parse_def done_raw_def created_raw_def delta_raw_def
      route_args_raw_def route_raw_def route_data_def js_def)

lemma sample_parse_route_elara:
  "parses_as sample_parse (route_raw (js ''elara'')) (route_data (js ''elara''))
     (js ''response.done'')"
  by (simp add: parses_as_def sample_parse_def done_raw_def created_raw_def delta_raw_def
      route_args_raw_def route_raw_def route_data_def js_def)

lemma sample_parse_args:
  "sample_parse (Some (JStr (route_args_raw (js ''dm''))))
     = Inr (JObj [(js ''npc_name'', JStr (js ''dm''))])"
  "sample_parse (Some (JStr (route_args_raw (js ''elara''))))
     = Inr (JObj [(js ''npc_name'', JStr (js ''elara''))])"
  by (simp_all add: sample_parse_def done_raw_def created_raw_def delta_raw_def
      route_args_raw_def js_def)

theorem route_to_active_persona_is_noop_witness:
  "parses_as sample_parse (route_raw (js ''dm'')) (route_data (js ''dm'')) (js ''response.done'')
   \<and> output_items (route_data (js ''dm'')) = [route_item (js ''dm'')]
   \<and> is_route_call (route_item (js ''dm''))
   \<and> names_active_persona sample_parse connected_dm (route_item (js ''dm''))
   \<and> currentActiveNPC
        (handleDataChannelMessage sample_parse (StringData (route_raw (js ''dm''))) connected_dm)
       = JStr (js ''dm'')
   \<and> effects
        (handleDataChannelMessage sample_parse (StringData (route_raw (js ''dm''))) connected_dm)
       = effects connected_dm @ [OnAudioLevel (Num 0)]"
proof -
  have items: "output_items (route_data (js ''dm'')) = [route_item (js ''dm'')]"
    by (simp add: output_items_def route_data_def)
  have call: "is_route_call (route_item (js ''dm''))"
    by (simp add: is_route_call_def route_item_def)
  have names: "names_active_persona sample_parse connected_dm (route_item (js ''dm''))"
    by (simp add: names_active_persona_def route_item_def sample_parse_args connected_dm_fields)
  have hyp: "list_all (\<lambda>output. is_route_call output \<longrightarrow>
                 names_active_persona sample_parse connected_dm output)
               (output_items (route_data (js ''dm'')))"
    by (simp add: items names)
  show ?thesis
    using route_to_active_persona_is_noop [OF sample_parse_route_dm hyp] items call names
      sample_parse_route_dm
    by (simp add: connected_dm_fields)
qed

text \<open>
  What \<open>switchToNPCInSession\<close> does when it is called with the data channel open: the
  persona-change callback, then the acknowledgment, then the session update, and a
  timer for the follow-up \<open>response.create\<close>.
\<close>

lemma switchToNPCInSession_effects:
  assumes "dataChannel s = Some c" and "readyState s c = Open"
  shows "effects (switchToNPCInSession npcName callId s)
           = effects s @ (if has_onNPCChange s then [OnNPCChange npcName] else [])
               @ [DataChannelSend c
                    (Conversation_item_create callId
                       \<lparr>status = js ''success'',
                        message = [Text (js ''Now speaking as ''), Subst npcName],
                        npc = npcName\<rparr>),
                  DataChannelSend c (Session_update (session_for npcName s)),
                  SetTimeout 100]
         \<and> currentActiveNPC (switchToNPCInSession npcName callId s) = npcName"
  using assms
  by (simp add: switchToNPCInSession_def onNPCChange_def sendEvent_def emit_def
      updateSessionInstructions_def session_for_def Let_def)

text \<open>
  C1. A \<open>route_to_npc\<close> call naming a valid persona other than the active one is to
  be followed by the acknowledgment, the persona-change callback, the session update
  and a follow-up \<open>response.create\<close>. The code does none of these: with the narrator
  active and the data channel open, a \<open>response.done\<close> event carrying a
  \<open>route_to_npc\<close> call for \<open>elara\<close> produces only the audio level 0, sets no timer for
  a follow-up, and leaves the narrator active. The call in the handler,
  \<open>this.switchNPCInSession(...)\<close>, names a method the class does not have.
\<close>

theorem route_to_other_persona_not_performed:
  "parses_as sample_parse (route_raw (js ''elara'')) (route_data (js ''elara''))
     (js ''response.done'')
   \<and> output_items (route_data (js ''elara'')) = [route_item (js ''elara'')]
   \<and> is_route_call (route_item (js ''elara''))
   \<and> names_active_persona sample_parse connected_dm (route_item (js ''elara'')) = False
   \<and> dataChannel connected_dm = Some 6 \<and> readyState connected_dm 6 = Open
   \<and> effects
        (handleDataChannelMessage sample_parse (StringData (route_raw (js ''elara'')))
           connected_dm)
       = effects connected_dm @ [OnAudioLevel (Num 0)]
   \<and> currentActiveNPC
        (handleDataChannelMessage sample_parse (StringData (route_raw (js ''elara'')))
           connected_dm)
       = JStr (js ''dm'')
   \<and> pending_timeouts
        (handleDataChannelMessage sample_parse (StringData (route_raw (js ''elara'')))
           connected_dm)
       = 0"
proof -
  have "names_active_persona sample_parse connected_dm (route_item (js ''elara'')) = False"
    by (simp add: names_active_persona_def route_item_def sample_parse_args connected_dm_fields)
  moreover have "pending_timeouts connected_dm = 0"
    by (simp add: connected_dm_def fresh_def new_client_def)
  moreover have "output_items (route_data (js ''elara'')) = [route_item (js ''elara'')]"
    by (simp add: output_items_def route_data_def)
  moreover have "is_route_call (route_item (js ''elara''))"
    by (simp add: is_route_call_def route_item_def)
  ultimately show ?thesis
    using sample_parse_route_elara
    by (simp add: dispatch_response_done[OF sample_parse_route_elara] on_response_done_eq
        onAudioLevel_def emit_def connected_dm_fields)
qed

section \<open>The label of an assistant turn\<close>

lemma dispatch_transcript_delta:
  assumes "parses_as P raw data (js ''response.audio_transcript.delta'')"
  shows "handleDataChannelMessage P (StringData raw) s = on_transcript_delta data s"
proof -
  from assms obtain kvs where "data = JObj kvs"
    "map_of kvs (js ''type'') = Some (JStr (js ''response.audio_transcript.delta''))"
    by (rule parses_as_obj)
  with assms show ?thesis
    by (simp add: parses_as_def handleDataChannelMessage_def)
qed

lemma created_at_connected_dm:
  "handleDataChannelMessage sample_parse (StringData created_raw) connected_dm
   = connected_dm\<lparr>currentResponseId := Some (JStr (js ''resp_1'')),
                   isGeneratingResponse := True,
                   paused := (paused connected_dm)(2 := False),
                   effects := effects connected_dm @ [OnAudioLevel (Num (7 / 10)), ElementPlay 2]\<rparr>"
  by (simp add: dispatch_response_created[OF sample_parse_created] on_response_created_def
      created_data_def onAudioLevel_def emit_def connected_dm_fields Let_def)

lemma mid_response_eq:
  "mid_response
   = connected_dm\<lparr>currentResponseId := Some (JStr (js ''resp_1'')),
                   currentResponseText := js ''Elara smiles.'',
                   isGeneratingResponse := True,
                   paused := (paused connected_dm)(2 := False),
                   effects := effects connected_dm @ [OnAudioLevel (Num (7 / 10)), ElementPlay 2]\<rparr>"
  by (simp add: mid_response_def step_def connected_dm_fields created_at_connected_dm
      dispatch_transcript_delta[OF sample_parse_delta] on_transcript_delta_def delta_data_def)

lemma stale_generating_eq:
  "stale_generating
   = connected_dm\<lparr>currentResponseId := Some (JStr (js ''resp_1'')),
                   isGeneratingResponse := True,
                   readyState := (readyState connected_dm)(6 := Closed),
                   paused := (paused connected_dm)(2 := False),
                   effects := effects connected_dm @ [OnAudioLevel (Num (7 / 10)), ElementPlay 2]\<rparr>"
  by (simp add: stale_generating_def step_def connected_dm_fields created_at_connected_dm)












section \<open>Inbound \<open>error\<close> events\<close>

lemma sample_parse_errors:
  "parses_as sample_parse (error_raw []) (error_data []) (js ''error'')"
  "parses_as sample_parse (error_raw benign_cancellation) (error_data benign_cancellation)
     (js ''error'')"
  "parses_as sample_parse (error_raw (js ''Rate limit reached''))
     (error_data (js ''Rate limit reached'')) (js ''error'')"
  by (simp_all add: parses_as_def sample_parse_def done_raw_def created_raw_def delta_raw_def
      route_args_raw_def route_raw_def error_raw_def error_data_def benign_cancellation_def
      js_def)

lemma default_message_not_benign:
  "\<not> str_includes (js ''Unknown API error'') benign_cancellation"
  by (simp add: benign_cancellation_def js_def)

lemma benign_cancellation_nonempty [simp]: "benign_cancellation \<noteq> []"
  by (simp add: benign_cancellation_def)

text \<open>
  C9. An inbound \<open>error\<close> event whose message is a string containing
  \<open>Cancellation failed: no active response found\<close> produces no \<open>onError\<close> call; one
  whose message is any other non-empty string produces exactly one \<open>onError\<close> call
  with that message; one with an empty message or none produces exactly one \<open>onError\<close>
  call with the text \<open>Unknown API error\<close>.
\<close>

theorem error_event_reports_message:
  assumes "parses_as JSON_parse raw data (js ''error'')"
  shows "(error_message data = None \<longrightarrow>
            effects (handleDataChannelMessage JSON_parse (StringData raw) s)
              = effects s @ [OnError (Plain (JStr (js ''Unknown API error'')))])
         \<and> (\<forall>t. error_message data = Some (JStr t) \<longrightarrow>
               effects (handleDataChannelMessage JSON_parse (StringData raw) s)
                 = effects s
                     @ (if str_includes t benign_cancellation then []
                        else [OnError (Plain (JStr (if t = [] then js ''Unknown API error''
                                                    else t)))]))"
  unfolding dispatch_error[OF assms]
  using parses_as_not_null[OF assms]
  by (auto simp add: on_error_def error_message_def get_prop_not_null emit_def Let_def
      default_message_not_benign)

theorem error_event_reports_message_witness:
  "parses_as sample_parse (error_raw benign_cancellation) (error_data benign_cancellation)
     (js ''error'')
   \<and> parses_as sample_parse (error_raw (js ''Rate limit reached''))
         (error_data (js ''Rate limit reached'')) (js ''error'')
   \<and> effects (handleDataChannelMessage sample_parse
                (StringData (error_raw benign_cancellation)) connected_dm)
       = effects connected_dm
   \<and> effects (handleDataChannelMessage sample_parse
                (StringData (error_raw (js ''Rate limit reached''))) connected_dm)
       = effects connected_dm @ [OnError (Plain (JStr (js ''Rate limit reached'')))]"
proof -
  have m1: "error_message (error_data benign_cancellation) = Some (JStr benign_cancellation)"
    and m2: "error_message (error_data (js ''Rate limit reached''))
               = Some (JStr (js ''Rate limit reached''))"
    by (simp_all add: error_message_def error_data_def)
  have i1: "str_includes benign_cancellation benign_cancellation"
    by (simp add: benign_cancellation_def js_def)
  have i2: "\<not> str_includes (js ''Rate limit reached'') benign_cancellation"
    by (simp add: benign_cancellation_def js_def)
  show ?thesis
    using error_event_reports_message [OF sample_parse_errors(2), of connected_dm]
      error_event_reports_message [OF sample_parse_errors(3), of connected_dm]
      sample_parse_errors m1 m2 i1 i2
    by simp
qed

theorem error_event_with_empty_message_counterexample:
  "parses_as sample_parse (error_raw []) (error_data []) (js ''error'')
   \<and> error_message (error_data []) = Some (JStr [])
   \<and> \<not> str_includes [] benign_cancellation
   \<and> effects (handleDataChannelMessage sample_parse (StringData (error_raw [])) connected_dm)
       = effects connected_dm @ [OnError (Plain (JStr (js ''Unknown API error'')))]
   \<and> JStr (js ''Unknown API error'') \<noteq> JStr []"
proof -
  have "error_message (error_data []) = Some (JStr [])"
    by (simp add: error_message_def error_data_def)
  moreover have "effects (handleDataChannelMessage sample_parse (StringData (error_raw []))
                            connected_dm)
                   = effects connected_dm @ [OnError (Plain (JStr (js ''Unknown API error'')))]"
    by (simp add: dispatch_error[OF sample_parse_errors(1)] on_error_def error_data_def emit_def
        default_message_not_benign)
  ultimately show ?thesis
    using sample_parse_errors(1) by simp
qed

section \<open>Connecting over a prior connection\<close>

lemma teardown_emit [simp]:
  "filter is_teardown (effects (emit e s)) = filter is_teardown (effects s) @ filter is_teardown [e]"
  by (simp add: emit_def)

lemma teardown_connect_catch [simp]:
  "filter is_teardown (effects (connect_catch e s)) = filter is_teardown (effects s)"
  by (simp add: connect_catch_def Let_def)

lemma teardown_connect_signaling [simp]:
  "filter is_teardown (effects (connect_signaling env k s)) = filter is_teardown (effects s)"
  by (simp add: connect_signaling_def Let_def split: option.splits attempt.splits)

lemma teardown_setupAudioAnalysis [simp]:
  "filter is_teardown (effects (setupAudioAnalysis out s)) = filter is_teardown (effects s)"
  by (simp add: setupAudioAnalysis_def Let_def split: option.splits analysis_outcome.splits)

lemma teardown_connect_media [simp]:
  "filter is_teardown (effects (connect_media env k s)) = filter is_teardown (effects s)"
  by (simp add: connect_media_def Let_def split: attempt.splits)

text \<open>
  C5. \<open>connect\<close> does not disconnect a prior connection: whatever the environment
  does, it makes no call that closes or releases a data channel, peer connection,
  audio context, media stream, audio element or animation frame. The teardown calls
  made so far are the same after \<open>connect\<close> as before it.
\<close>

theorem connect_performs_no_teardown:
  "filter is_teardown (effects (connect env s)) = filter is_teardown (effects s)"
  by (simp add: connect_def Let_def split: attempt.splits sum.splits option.splits)

lemma connected_dm_more:
  "next_handle connected_dm = 7" "settings connected_dm = sample_settings"
  "peerConnection connected_dm = Some 1"
  "filter is_teardown (effects connected_dm) = []"
  by (simp_all add: connected_dm_def fresh_def new_client_def)

lemma reconnect_connected_dm:
  "connect ok_env connected_dm
   = connected_dm\<lparr>peerConnection := Some 7, dataChannel := Some 12, audioElement := Some 8,
       mediaStream := Some 9, audioContext := Some 10, analyser := Some 11,
       dataArray := Some (replicate 128 0),
       readyState := (readyState connected_dm)(12 := Connecting),
       connectionState := (connectionState connected_dm)(7 := CsNew),
       paused := (paused connected_dm)(8 := True),
       suspended := (suspended connected_dm)(10 := False),
       has_audio_track := (has_audio_track connected_dm)(9 := True),
       track_enabled := (track_enabled connected_dm)(9 := False),
       next_handle := 13,
       effects := effects connected_dm
         @ [FetchSession (js ''sk-test'') (js ''gpt-4o-mini-realtime-preview-2024-12-17'')
              (js ''verse''),
            NewPeerConnection 7, NewAudioElement 8, AddTrack 7 9, NewDataChannel 7 12,
            SetLocalDescription 7,
            FetchSdp (js ''gpt-4o-mini-realtime-preview-2024-12-17'') (JStr (js ''ek_1''))
              (Some (JStr (js ''v=0''))),
            SetRemoteDescription 7]\<rparr>"
  by (simp add: connect_def connect_media_def connect_signaling_def setupAudioAnalysis_def
      getVoiceForNPC_def emit_def ok_env_def session_response_def sdp_answer_def
      sample_settings_def connected_dm_fields connected_dm_more Let_def)

theorem connect_keeps_prior_connection_counterexample:
  "isConnected connected_dm
   \<and> peerConnection connected_dm = Some 1 \<and> dataChannel connected_dm = Some 6
   \<and> readyState connected_dm 6 = Open
   \<and> peerConnection (connect ok_env connected_dm) = Some 7
   \<and> dataChannel (connect ok_env connected_dm) = Some 12
   \<and> readyState (connect ok_env connected_dm) 6 = Open
   \<and> connectionState (connect ok_env connected_dm) 1 = CsNew
   \<and> isConnected (connect ok_env connected_dm)
   \<and> filter is_teardown (effects (connect ok_env connected_dm)) = []"
  by (simp add: reconnect_connected_dm connected_dm_fields connected_dm_more)
    (simp add: connected_dm_def)

section \<open>Disconnecting\<close>

lemma stopAudioLevelMonitoring_fields [simp]:
  "audioContext (stopAudioLevelMonitoring s) = audioContext s"
  "dataChannel (stopAudioLevelMonitoring s) = dataChannel s"
  "peerConnection (stopAudioLevelMonitoring s) = peerConnection s"
  "mediaStream (stopAudioLevelMonitoring s) = mediaStream s"
  "audioElement (stopAudioLevelMonitoring s) = audioElement s"
  "currentResponseId (stopAudioLevelMonitoring s) = currentResponseId s"
  "currentResponseText (stopAudioLevelMonitoring s) = currentResponseText s"
  by (simp_all add: stopAudioLevelMonitoring_def onAudioLevel_def emit_def split: option.splits)

lemma teardown_stopAudioLevelMonitoring:
  "filter is_teardown (effects (stopAudioLevelMonitoring s))
     = filter is_teardown (effects s)
         @ (case animationFrame s of
              None \<Rightarrow> []
            | Some h \<Rightarrow> if h = 0 then [] else [CancelAnimationFrame h])"
  by (simp add: stopAudioLevelMonitoring_def onAudioLevel_def emit_def split: option.splits)

lemma disconnect_handles:
  "peerConnection (disconnect s) = None" "dataChannel (disconnect s) = None"
  "audioContext (disconnect s) = None" "mediaStream (disconnect s) = None"
  "audioElement (disconnect s) = None"
  by (simp_all add: disconnect_def emit_def Let_def split: option.splits)

lemma disconnect_flags:
  "\<not> isConnected (disconnect s)" "\<not> isListening (disconnect s)"
  "\<not> isGeneratingResponse (disconnect s)"
  by (simp_all add: disconnect_def Let_def)

lemma disconnect_response:
  "currentResponseId (disconnect s) = currentResponseId s"
  "currentResponseText (disconnect s) = currentResponseText s"
  by (simp_all add: disconnect_def emit_def Let_def split: option.splits)

lemma teardown_disconnect:
  "filter is_teardown (effects (disconnect s))
     = filter is_teardown (effects s)
         @ (case animationFrame s of
              None \<Rightarrow> []
            | Some h \<Rightarrow> if h = 0 then [] else [CancelAnimationFrame h])
         @ (case audioContext s of None \<Rightarrow> [] | Some x \<Rightarrow> [ContextClose x])
         @ (case dataChannel s of None \<Rightarrow> [] | Some c \<Rightarrow> [ChannelClose c])
         @ (case peerConnection s of None \<Rightarrow> [] | Some p \<Rightarrow> [PeerClose p])
         @ (case mediaStream s of None \<Rightarrow> [] | Some m \<Rightarrow> [TracksStop m])
         @ (case audioElement s of None \<Rightarrow> [] | Some a \<Rightarrow> [ElementRemove a])"
  by (simp add: disconnect_def emit_def Let_def teardown_stopAudioLevelMonitoring
      split: option.splits)

text \<open>
  C6. After \<open>disconnect\<close>, whatever the prior state, the connected, listening and
  generating flags are false and the transport, the audio pipeline and the playback
  element are torn down: the pending animation frame is cancelled, the audio context,
  data channel and peer connection are closed, the tracks of the microphone stream are
  stopped and the audio element is removed, each if held, and their fields are
  \<open>null\<close>. The active persona, the in-flight response id and the accumulated text are
  left as they were.
\<close>

theorem disconnect_releases_and_keeps_response:
  "\<not> isConnected (disconnect s) \<and> \<not> isListening (disconnect s)
   \<and> \<not> isGeneratingResponse (disconnect s)
   \<and> peerConnection (disconnect s) = None \<and> dataChannel (disconnect s) = None
   \<and> audioContext (disconnect s) = None \<and> mediaStream (disconnect s) = None
   \<and> audioElement (disconnect s) = None
   \<and> filter is_teardown (effects (disconnect s))
       = filter is_teardown (effects s)
           @ (case animationFrame s of
                None \<Rightarrow> []
              | Some h \<Rightarrow> if h = 0 then [] else [CancelAnimationFrame h])
           @ (case audioContext s of None \<Rightarrow> [] | Some x \<Rightarrow> [ContextClose x])
           @ (case dataChannel s of None \<Rightarrow> [] | Some c \<Rightarrow> [ChannelClose c])
           @ (case peerConnection s of None \<Rightarrow> [] | Some p \<Rightarrow> [PeerClose p])
           @ (case mediaStream s of None \<Rightarrow> [] | Some m \<Rightarrow> [TracksStop m])
           @ (case audioElement s of None \<Rightarrow> [] | Some a \<Rightarrow> [ElementRemove a])
   \<and> currentActiveNPC (disconnect s) = currentActiveNPC s
   \<and> currentResponseId (disconnect s) = currentResponseId s
   \<and> currentResponseText (disconnect s) = currentResponseText s"
  by (simp only: disconnect_handles disconnect_flags disconnect_response teardown_disconnect
      persona_disconnect simp_thms)

lemma reachable_mid_response: "reachable sample_parse mid_response"
  unfolding mid_response_def using reachable_connected_dm by (rule reachable_run)

theorem disconnect_keeps_response_counterexample:
  "reachable sample_parse mid_response
   \<and> currentResponseId (disconnect mid_response) = Some (JStr (js ''resp_1''))
   \<and> currentResponseText (disconnect mid_response) = js ''Elara smiles.''
   \<and> js ''Elara smiles.'' \<noteq> []"
proof -
  have "currentResponseId mid_response = Some (JStr (js ''resp_1''))"
    and "currentResponseText mid_response = js ''Elara smiles.''"
    by (simp_all add: mid_response_eq)
  then show ?thesis
    using reachable_mid_response by (simp add: disconnect_response)
qed

section \<open>Barge-in: \<open>startListening\<close> during a response\<close>

lemma sends_emit [simp]: "sends (effects (emit e s)) = sends (effects s) @ sends [e]"
  by (simp add: emit_def)

lemma sends_sendEvent [simp]:
  "sends (effects (sendEvent event s))
     = sends (effects s) @ (if channel_open s then [event] else [])"
  by (simp add: sendEvent_def channel_open_def split: option.splits)

lemma sends_onAudioLevel [simp]: "sends (effects (onAudioLevel x s)) = sends (effects s)"
  by (simp add: onAudioLevel_def)

lemma sends_resume_context [simp]: "sends (effects (resume_context s)) = sends (effects s)"
  by (simp add: resume_context_def split: option.splits)

lemma sends_stop_playback [simp]: "sends (effects (stop_playback s)) = sends (effects s)"
  by (simp add: stop_playback_def split: option.splits)

lemma sends_set_track_enabled [simp]:
  "sends (effects (set_track_enabled m b s)) = sends (effects s)"
  by (simp add: set_track_enabled_def)

lemma sends_updateLevel [simp]: "sends (effects (updateLevel s)) = sends (effects s)"
  by (simp add: updateLevel_def Let_def split: option.splits)

lemma sends_startAudioLevelMonitoring [simp]:
  "sends (effects (startAudioLevelMonitoring s)) = sends (effects s)"
  by (simp add: startAudioLevelMonitoring_def)

lemma sends_cancelResponse [simp]:
  "sends (effects (cancelResponse s))
     = sends (effects s)
         @ (if isGeneratingResponse s \<and> channel_open s then [Response_cancel] else [])"
  by (simp add: cancelResponse_def)

lemma channel_open_emit [simp]: "channel_open (emit e s) = channel_open s"
  by (simp add: channel_open_def emit_def split: option.splits)

lemma channel_open_onAudioLevel [simp]: "channel_open (onAudioLevel x s) = channel_open s"
  by (simp add: onAudioLevel_def)

lemma channel_open_sendEvent [simp]: "channel_open (sendEvent event s) = channel_open s"
  by (simp add: sendEvent_def split: option.splits)

lemma channel_open_resume_context [simp]: "channel_open (resume_context s) = channel_open s"
  by (simp add: resume_context_def split: option.splits)

lemma channel_open_cancelResponse [simp]: "channel_open (cancelResponse s) = channel_open s"
  by (simp add: cancelResponse_def channel_open_def sendEvent_def onAudioLevel_def emit_def
      split: option.splits)

lemma channel_open_stop_playback [simp]: "channel_open (stop_playback s) = channel_open s"
  by (simp add: stop_playback_def channel_open_def emit_def split: option.splits)

lemma channel_open_set_track_enabled [simp]:
  "channel_open (set_track_enabled m b s) = channel_open s"
  by (simp add: set_track_enabled_def channel_open_def split: option.splits)

lemma channel_open_isListening [simp]:
  "channel_open (s\<lparr>isListening := b\<rparr>) = channel_open s"
  by (simp add: channel_open_def split: option.splits)

lemma cleared_emit [simp]: "response_cleared (emit e s) = response_cleared s"
  by (simp add: response_cleared_def emit_def)

lemma cleared_onAudioLevel [simp]: "response_cleared (onAudioLevel x s) = response_cleared s"
  by (simp add: onAudioLevel_def)

lemma cleared_sendEvent [simp]: "response_cleared (sendEvent event s) = response_cleared s"
  by (simp add: sendEvent_def split: option.splits)

lemma cleared_stop_playback [simp]: "response_cleared (stop_playback s) = response_cleared s"
  by (simp add: stop_playback_def response_cleared_def emit_def split: option.splits)

lemma cleared_set_track_enabled [simp]:
  "response_cleared (set_track_enabled m b s) = response_cleared s"
  by (simp add: set_track_enabled_def response_cleared_def)

lemma cleared_isListening [simp]:
  "response_cleared (s\<lparr>isListening := b\<rparr>) = response_cleared s"
  by (simp add: response_cleared_def)

lemma cleared_updateLevel [simp]: "response_cleared (updateLevel s) = response_cleared s"
  by (simp add: updateLevel_def response_cleared_def onAudioLevel_def emit_def Let_def
      split: option.splits)

lemma cleared_startAudioLevelMonitoring [simp]:
  "response_cleared (startAudioLevelMonitoring s) = response_cleared s"
  by (simp add: startAudioLevelMonitoring_def)

lemma cleared_cancelResponse:
  "isGeneratingResponse s \<Longrightarrow> response_cleared (cancelResponse s)"
  by (simp add: cancelResponse_def response_cleared_def onAudioLevel_def emit_def)

lemma generating_resume_context [simp]:
  "isGeneratingResponse (resume_context s) = isGeneratingResponse s"
  by (simp add: resume_context_def emit_def split: option.splits)

text \<open>The state in which \<open>startListening\<close> sends \<open>input_audio_buffer.clear\<close>.\<close>

lemma startListening_stages:
  assumes "isConnected s" and "\<not> isListening s" and "mediaStream s = Some m"
  shows "startListening s
           = (True, startAudioLevelMonitoring
                      (sendEvent Input_audio_buffer_clear
                         ((set_track_enabled m True
                             (stop_playback (cancelResponse (resume_context s))))
                            \<lparr>isListening := True\<rparr>)))"
  using assms by (simp add: startListening_def Let_def)

text \<open>
  C4. For every call of \<open>startListening\<close> made while connected, holding a microphone
  stream, not already listening and with a response in flight: the in-flight response
  (text, id, generating flag) is cleared before \<open>input_audio_buffer.clear\<close> is sent,
  and the events sent by the call are \<open>response.cancel\<close> followed by
  \<open>input_audio_buffer.clear\<close> when the data channel is open, and none when it is not.
\<close>

theorem startListening_cancels_before_buffer_clear:
  assumes "isConnected s" and "\<not> isListening s" and "isGeneratingResponse s"
    and "mediaStream s = Some m"
  shows "\<exists>before.
           startListening s
             = (True, startAudioLevelMonitoring (sendEvent Input_audio_buffer_clear before))
           \<and> response_cleared before
           \<and> sends (effects before)
               = sends (effects s) @ (if channel_open s then [Response_cancel] else [])
           \<and> sends (effects (snd (startListening s)))
               = sends (effects s)
                   @ (if channel_open s then [Response_cancel, Input_audio_buffer_clear]
                      else [])
           \<and> response_cleared (snd (startListening s))"
proof -
  let ?before = "(set_track_enabled m True (stop_playback (cancelResponse (resume_context s))))
                   \<lparr>isListening := True\<rparr>"
  have stages: "startListening s
                  = (True, startAudioLevelMonitoring (sendEvent Input_audio_buffer_clear ?before))"
    using assms(1,2,4) by (rule startListening_stages)
  have gen: "isGeneratingResponse (resume_context s)" using assms(3) by simp
  have cleared: "response_cleared ?before"
    using cleared_cancelResponse[OF gen] by simp
  have sent: "sends (effects ?before)
                = sends (effects s) @ (if channel_open s then [Response_cancel] else [])"
    using assms(3) by simp
  have all: "sends (effects (snd (startListening s)))
               = sends (effects s)
                   @ (if channel_open s then [Response_cancel, Input_audio_buffer_clear] else [])"
    unfolding stages using assms(3) by simp
  have final: "response_cleared (snd (startListening s))"
    unfolding stages using cleared by simp
  from stages cleared sent all final show ?thesis by blast
qed

lemma mid_response_fields:
  "isConnected mid_response" "\<not> isListening mid_response" "isGeneratingResponse mid_response"
  "mediaStream mid_response = Some 3" "channel_open mid_response"
  by (simp_all add: mid_response_eq connected_dm_fields channel_open_def)

theorem startListening_cancels_before_buffer_clear_witness:
  "isConnected mid_response \<and> \<not> isListening mid_response
   \<and> isGeneratingResponse mid_response \<and> mediaStream mid_response = Some 3
   \<and> channel_open mid_response
   \<and> sends (effects (snd (startListening mid_response)))
       = sends (effects mid_response) @ [Response_cancel, Input_audio_buffer_clear]
   \<and> response_cleared (snd (startListening mid_response))"
  using startListening_cancels_before_buffer_clear [OF mid_response_fields(1-4)]
    mid_response_fields
  by auto

lemma stale_generating_fields:
  "isConnected stale_generating" "\<not> isListening stale_generating"
  "isGeneratingResponse stale_generating" "mediaStream stale_generating = Some 3"
  "\<not> channel_open stale_generating" "dataChannel stale_generating = Some 6"
  "readyState stale_generating 6 = Closed"
  by (simp_all add: stale_generating_eq connected_dm_fields channel_open_def)

lemma reachable_stale_generating: "reachable sample_parse stale_generating"
  unfolding stale_generating_def using reachable_connected_dm by (rule reachable_run)

theorem startListening_closed_channel_counterexample:
  "reachable sample_parse stale_generating
   \<and> isConnected stale_generating \<and> \<not> isListening stale_generating
   \<and> isGeneratingResponse stale_generating
   \<and> fst (startListening stale_generating)
   \<and> sends (effects (snd (startListening stale_generating)))
       = sends (effects stale_generating)"
  using reachable_stale_generating stale_generating_fields
  by (simp add: startListening_stages[OF stale_generating_fields(1,2,4)])

section \<open>Values delivered to the audio-level callback\<close>

lemma levels_on_response_created_truthy:
  "truthy (Some data) \<Longrightarrow>
   levels (effects (on_response_created data s))
     = levels (effects s) @ (if has_onAudioLevel s then [Num (7 / 10)] else [])"
  by (rule levels_on_response_created) auto

lemma levels_handle_quiet:
  "\<exists>ls. levels (effects (handleDataChannelMessage P d s)) = levels (effects s) @ ls
        \<and> list_all (\<lambda>x. x = Num 0 \<or> x = Num (7 / 10)) ls"
  by (simp add: handleDataChannelMessage_def levels_on_response_created_truthy
      split: message_data.splits sum.splits option.splits json.splits)

lemma levels_stopAudioLevelMonitoring:
  "levels (effects (stopAudioLevelMonitoring s))
     = levels (effects s) @ (if has_onAudioLevel s then [Num 0] else [])"
  by (simp add: stopAudioLevelMonitoring_def onAudioLevel_def emit_def split: option.splits)

lemma levels_disconnect:
  "levels (effects (disconnect s))
     = levels (effects s) @ (if has_onAudioLevel s then [Num 0] else [])"
  by (simp add: disconnect_def emit_def Let_def levels_stopAudioLevelMonitoring
      split: option.splits)

lemma levels_updateLevel_not_listening:
  "\<not> isListening s \<Longrightarrow>
   levels (effects (updateLevel s))
     = levels (effects s) @ (if has_onAudioLevel s then [Num 0] else [])"
  by (simp add: updateLevel_def split: option.splits)

lemma levels_stopListening_not_listening:
  "\<not> isListening s \<Longrightarrow> stopListening s = s"
  by (simp add: stopListening_def split: option.splits)

lemma levels_step_not_listening:
  assumes "\<not> isListening s" and "a \<noteq> StartListening"
  shows "\<exists>ls. levels (effects (step P a s)) = levels (effects s) @ ls
           \<and> list_all (\<lambda>x. x = Num 0 \<or> x = Num (7 / 10)) ls"
proof (cases a)
  case (ChannelMessage c d)
  then show ?thesis using levels_handle_quiet[of P d s] by (simp add: step_def)
next
  case (AnimationFrame h)
  then show ?thesis using assms(1)
    by (simp add: step_def levels_updateLevel_not_listening)
qed (use assms in \<open>simp_all add: step_def levels_disconnect levels_stopListening_not_listening
      on_channel_open_def on_channel_error_def ontrack_def onconnectionstatechange_def
      on_timeout_def split: option.splits\<close>)

text \<open>
  C7. In every reachable state, every value that has been delivered through the
  audio-level callback lies in the interval from 0 to 1. While the client is not
  listening, the level monitor delivers only the value 0, and any action other than
  the \<open>startListening\<close> call that arms the microphone delivers only 0 or the fixed
  value 0.7, which a \<open>response.created\<close> event delivers whether or not the client is
  listening.
\<close>

theorem audio_levels_in_range_and_quiet_when_not_listening:
  assumes "reachable JSON_parse s"
  shows "list_all in_unit_interval (levels (effects s))
         \<and> (\<not> isListening s \<longrightarrow>
               levels (effects (updateLevel s))
                 = levels (effects s) @ (if has_onAudioLevel s then [Num 0] else []))
         \<and> (\<not> isListening s \<longrightarrow> a \<noteq> StartListening \<longrightarrow>
               (\<exists>ls. levels (effects (step JSON_parse a s)) = levels (effects s) @ ls
                  \<and> list_all (\<lambda>x. x = Num 0 \<or> x = Num (7 / 10)) ls))"
  using reachable_levels[OF assms] levels_updateLevel_not_listening[of s]
    levels_step_not_listening[of s a JSON_parse]
  by blast

lemma levels_connected_dm: "levels (effects connected_dm) = []"
  by (simp add: connected_dm_def fresh_def new_client_def)

theorem audio_levels_in_range_and_quiet_when_not_listening_witness:
  "reachable sample_parse mid_response \<and> \<not> isListening mid_response
   \<and> Disconnect \<noteq> StartListening
   \<and> levels (effects mid_response) = [Num (7 / 10)]
   \<and> list_all in_unit_interval (levels (effects mid_response))
   \<and> levels (effects (updateLevel mid_response)) = [Num (7 / 10), Num 0]
   \<and> (\<exists>ls. levels (effects (step sample_parse Disconnect mid_response))
               = levels (effects mid_response) @ ls
             \<and> list_all (\<lambda>x. x = Num 0 \<or> x = Num (7 / 10)) ls)"
proof -
  have lv: "levels (effects mid_response) = [Num (7 / 10)]"
    by (simp add: mid_response_eq levels_connected_dm)
  have cb: "has_onAudioLevel mid_response"
    by (simp add: mid_response_eq connected_dm_fields)
  show ?thesis
    using audio_levels_in_range_and_quiet_when_not_listening
            [OF reachable_mid_response, of Disconnect]
      reachable_mid_response mid_response_fields(2) lv cb
    by simp
qed

theorem response_created_level_while_not_listening_counterexample:
  "reachable sample_parse connected_dm \<and> \<not> isListening connected_dm
   \<and> parses_as sample_parse created_raw created_data (js ''response.created'')
   \<and> effects (handleDataChannelMessage sample_parse (StringData created_raw) connected_dm)
       = effects connected_dm @ [OnAudioLevel (Num (7 / 10)), ElementPlay 2]
   \<and> \<not> isListening
         (handleDataChannelMessage sample_parse (StringData created_raw) connected_dm)
   \<and> Num (7 / 10) \<noteq> Num 0"
  using reachable_connected_dm[of sample_parse] sample_parse_created
  by (simp add: created_at_connected_dm connected_dm_fields)

end
